theory Spec2Isabelle
  imports Complex_Main "HOL-Library.Sublist" "HOL-Library.Multiset"
begin

section \<open>Data model (models.py)\<close>

text \<open>
  The enumerations of models.py. Python floats are modelled as exact reals: every
  comparison and every arithmetic operation of the source is kept, rounding is not
  modelled.
\<close>

datatype BudgetLevel = Budget_LOW | Budget_MEDIUM | Budget_HIGH

datatype TimelineLevel = TIGHT | MODERATE | FLEXIBLE

datatype ScaleLevel = SMALL | Scale_MEDIUM | LARGE

datatype ExpertiseLevel = BEGINNER | INTERMEDIATE | EXPERT

datatype ConfidenceLevel = LOW | MEDIUM | HIGH

datatype MaturityLevel = EXPERIMENTAL | STABLE | MATURE

record ProjectRequirements =
  team_size :: int
  budget :: BudgetLevel
  timeline :: TimelineLevel
  scalability_needs :: ScaleLevel
  expertise_level :: ExpertiseLevel

text \<open>
  A Python dict keeps insertion order, and the source iterates over and sorts dict
  items, so a dict is an association list with distinct keys.
\<close>

type_synonym 'a dict = "(string \<times> 'a) list"

record WeightedCriteria =
  dimension_weights :: "real dict"
  priority_factors :: "string list"

record DimensionScore =
  score :: real
  explanation :: string

record TechnologyMetadata =
  maturity :: MaturityLevel
  license :: string
  maintainer :: string

record TechnologyProfile =
  name :: string
  category :: string
  dimensions :: "DimensionScore dict"
  pros :: "string list"
  cons :: "string list"
  best_for :: "string list"
  metadata :: TechnologyMetadata

text \<open>
  The generated explanation texts (\<open>reasoning\<close>) of CompatibilityScore and RankedChoice,
  and the \<open>key_decision_factors\<close> and \<open>caveats\<close> of Recommendation, are texts built
  with number formatting; they are never empty and decide no branch, and are left out of
  the records.
\<close>

record CompatibilityScore =
  technology :: string
  compat_score :: real

record TradeoffHighlight =
  dimension :: string
  leader :: string
  hl_explanation :: string

record TradeoffMatrix =
  tm_technologies :: "string list"
  tm_dimensions :: "string list"
  scores :: "real list list"
  explanations :: "string list list"
  highlights :: "TradeoffHighlight list"

record RankedChoice =
  rc_technology :: string
  rc_score :: real
  confidence :: ConfidenceLevel

record AlternativeScenario =
  scenario :: string
  recommended_tech :: string
  as_explanation :: string

record Recommendation =
  ranked_choices :: "RankedChoice list"
  alternative_scenarios :: "AlternativeScenario list option"

record ComparisonResult =
  cr_technologies :: "string list"
  comparison_data :: "TechnologyProfile dict"
  tradeoff_matrix :: TradeoffMatrix
  compatibility_scores :: "CompatibilityScore list"
  weighted_criteria :: WeightedCriteria

datatype error =
    ValueError
  | KeyError
  | IndexError
  | RequirementsProcessingError
  | ConflictingRequirementsError "string list"
  | ComparisonError
  | InsufficientDataError
  | InputValidationError string
  | TechnologyNotFoundError

section \<open>Dict and sorting helpers\<close>

text \<open>\<open>d[k]\<close> for a key that is present; every use below is on a dict holding the key.\<close>

fun dict_item :: "real dict \<Rightarrow> string \<Rightarrow> real" where
  "dict_item [] k = 0"
| "dict_item ((k', v) # d) k = (if k' = k then v else dict_item d k)"

text \<open>\<open>d[k] = v\<close>: the position of a key that is present is kept, a new key goes last.\<close>

fun dict_set :: "'a dict \<Rightarrow> string \<Rightarrow> 'a \<Rightarrow> 'a dict" where
  "dict_set [] k v = [(k, v)]"
| "dict_set ((k', v') # d) k v = (if k' = k then (k', v) # d else (k', v') # dict_set d k v)"

definition dict_values :: "real dict \<Rightarrow> real list" where
  "dict_values d = map snd d"

text \<open>
  \<open>sorted(xs, key=f, reverse=True)\<close>: descending by key, and stable (elements with
  equal keys keep their input order). \<open>sorted(xs, key=f)\<close> is \<open>sort_key f xs\<close>.
\<close>

definition sorted_reverse :: "('a \<Rightarrow> real) \<Rightarrow> 'a list \<Rightarrow> 'a list" where
  "sorted_reverse f xs = sort_key (\<lambda>x. - f x) xs"

text \<open>\<open>next(i for i, (dm, _) in enumerate(xs) if dm == k)\<close>, for a key that is present.\<close>

fun rank_of :: "string \<Rightarrow> real dict \<Rightarrow> nat" where
  "rank_of k [] = 0"
| "rank_of k ((d, w) # xs) = (if d = k then 0 else Suc (rank_of k xs))"

section \<open>Requirements processor (requirements_processor.py)\<close>

definition standard_dimensions :: "string list" where
  "standard_dimensions = [''cost'', ''scalability'', ''complexity'', ''ecosystem'', ''performance'']"

definition dimension_boosts :: "ProjectRequirements \<Rightarrow> real dict" where
  "dimension_boosts r =
    (let cost_boost = (case budget r of Budget_LOW \<Rightarrow> 0.15 | Budget_MEDIUM \<Rightarrow> 0.05
                        | Budget_HIGH \<Rightarrow> - 0.03);
         timeline_boost = (case timeline r of TIGHT \<Rightarrow> 0.15 | MODERATE \<Rightarrow> 0.06
                        | FLEXIBLE \<Rightarrow> - 0.06);
         complexity_boost = (case expertise_level r of BEGINNER \<Rightarrow> timeline_boost + 0.10
                        | INTERMEDIATE \<Rightarrow> timeline_boost | EXPERT \<Rightarrow> timeline_boost - 0.05);
         scalability_boost = (case scalability_needs r of LARGE \<Rightarrow> 0.18 | Scale_MEDIUM \<Rightarrow> 0.06
                        | SMALL \<Rightarrow> - 0.04);
         performance_boost = (case scalability_needs r of LARGE \<Rightarrow> 0.18 | Scale_MEDIUM \<Rightarrow> 0.05
                        | SMALL \<Rightarrow> - 0.03);
         size_boost = real_of_int (team_size r) * 0.015;
         expertise_ecosystem_boost = (case expertise_level r of BEGINNER \<Rightarrow> 0.12
                        | INTERMEDIATE \<Rightarrow> 0.04 | EXPERT \<Rightarrow> - 0.04)
     in [(''cost'', cost_boost), (''complexity'', complexity_boost),
         (''scalability'', scalability_boost), (''performance'', performance_boost),
         (''ecosystem'', size_boost + expertise_ecosystem_boost)])"

text \<open>\<open>for dimension, boost in dimension_boosts.items(): weights[dimension] += boost\<close>\<close>

fun apply_boosts :: "real dict \<Rightarrow> real dict \<Rightarrow> real dict" where
  "apply_boosts [] weights = weights"
| "apply_boosts ((dimn, boost) # bs) weights =
     apply_boosts bs (dict_set weights dimn (dict_item weights dimn + boost))"

text \<open>\<open>{dm: weight / total for dm, weight in weights.items()}\<close> with the total of the values.\<close>

definition normalize :: "real dict \<Rightarrow> real dict" where
  "normalize weights =
    (let total = sum_list (dict_values weights) in map (\<lambda>(dm, weight). (dm, weight / total)) weights)"

text \<open>
  The loop that funds the scale-priority boost from the lowest weights first, with its
  \<open>break\<close> once nothing remains to be taken.
\<close>

fun take_from_lowest :: "string \<Rightarrow> real dict \<Rightarrow> real \<Rightarrow> real dict \<Rightarrow> real dict" where
  "take_from_lowest target_dim [] remaining_boost nw = nw"
| "take_from_lowest target_dim ((dm, weight) # rest) remaining_boost nw =
    (if dm \<noteq> target_dim \<and> remaining_boost > 0 then
       (let available_reduction = max 0 (weight - 0.05);
            reduction = min remaining_boost available_reduction;
            nw' = dict_set nw dm (dict_item nw dm - reduction);
            remaining' = remaining_boost - reduction
        in if remaining' \<le> 0 then nw' else take_from_lowest target_dim rest remaining' nw')
     else take_from_lowest target_dim rest remaining_boost nw)"

definition scale_priority_override :: "ProjectRequirements \<Rightarrow> real dict \<Rightarrow> real dict" where
  "scale_priority_override r normalized_weights =
    (if scalability_needs r = LARGE then
       (let competing_high_priority =
              (if budget r = Budget_LOW then 1 else 0) + (if timeline r = TIGHT then 1 else 0)
              + (if expertise_level r = BEGINNER then (1::nat) else 0)
        in if competing_high_priority \<ge> 2 then
             (let sorted_weights = sorted_reverse snd normalized_weights;
                  scalability_rank = rank_of ''scalability'' sorted_weights;
                  performance_rank = rank_of ''performance'' sorted_weights
              in if min scalability_rank performance_rank > 2 then
                   (let target_dim = (if dict_item normalized_weights ''scalability''
                                          \<ge> dict_item normalized_weights ''performance''
                                       then ''scalability'' else ''performance'');
                        third_highest_weight = snd (sorted_weights ! 2);
                        target_weight = third_highest_weight + 0.01;
                        current_weight = dict_item normalized_weights target_dim;
                        needed_boost = target_weight - current_weight;
                        sorted_by_weight = sort_key snd normalized_weights;
                        nw = take_from_lowest target_dim sorted_by_weight needed_boost
                               normalized_weights
                    in normalize (dict_set nw target_dim target_weight))
                 else normalized_weights)
           else normalized_weights)
     else normalized_weights)"

text \<open>
  One step of the inner loop of the priority-guarantee pass: withdraw from one
  non-highlighted dimn its share of the needed boost, not below 0.05.
\<close>

definition reduce_other :: "real \<Rightarrow> real \<Rightarrow> real dict \<Rightarrow> string \<Rightarrow> real dict" where
  "reduce_other needed_boost total_non_highlighted_weight nw other_dim =
    (let reduction_ratio = dict_item nw other_dim / total_non_highlighted_weight;
         reduction = needed_boost * reduction_ratio
     in dict_set nw other_dim (max 0.05 (dict_item nw other_dim - reduction)))"

definition force_above_baseline :: "string list \<Rightarrow> string \<Rightarrow> real dict \<Rightarrow> real dict" where
  "force_above_baseline top_dims dimn normalized_weights =
    (let baseline_threshold = 0.2 in
     if dict_item normalized_weights dimn \<le> baseline_threshold then
       (let target_weight = baseline_threshold + 0.01;
            current_weight = dict_item normalized_weights dimn;
            needed_boost = target_weight - current_weight;
            non_highlighted = filter (\<lambda>d. d \<notin> set top_dims) (map fst normalized_weights)
        in if non_highlighted \<noteq> [] then
             (let total_non_highlighted_weight =
                    sum_list (map (dict_item normalized_weights) non_highlighted)
              in if total_non_highlighted_weight > needed_boost then
                   normalize (dict_set
                     (foldl (reduce_other needed_boost total_non_highlighted_weight)
                        normalized_weights non_highlighted)
                     dimn target_weight)
                 else normalized_weights)
           else normalized_weights)
     else normalized_weights)"

definition calculate_dimension_weights :: "ProjectRequirements \<Rightarrow> real dict" where
  "calculate_dimension_weights r =
    (let base_weight = 0.2;
         weights = map (\<lambda>d. (d, base_weight)) standard_dimensions;
         boosts = dimension_boosts r;
         weights = apply_boosts boosts weights;
         weights = map (\<lambda>(dimn, w). (dimn, max 0.05 w)) weights;
         normalized_weights = normalize weights;
         highlighted_dimensions = sorted_reverse snd (filter (\<lambda>(dm, boost). boost > 0.02) boosts);
         normalized_weights = scale_priority_override r normalized_weights;
         max_highlights = min 3 (length highlighted_dimensions);
         top_dims = map fst (take max_highlights highlighted_dimensions)
     in foldl (\<lambda>nw dimn. force_above_baseline top_dims dimn nw)
          normalized_weights top_dims)"

definition validate_requirements :: "ProjectRequirements \<Rightarrow> error + unit" where
  "validate_requirements r =
    (if team_size r < 1 then Inl ValueError
     else if team_size r > 1000 then Inl ValueError
     else Inr ())"

definition detect_requirement_conflicts :: "ProjectRequirements \<Rightarrow> string list" where
  "detect_requirement_conflicts r =
    (if budget r = Budget_LOW \<and> scalability_needs r = LARGE \<and> timeline r = TIGHT
       then [''Low budget, large scalability needs, and tight timeline create competing priorities'']
       else [])
    @ (if expertise_level r = BEGINNER \<and> timeline r = TIGHT \<and> scalability_needs r = LARGE
       then [''Beginner expertise with tight timeline and large scale requirements may be unrealistic'']
       else [])
    @ (if budget r = Budget_LOW \<and> expertise_level r = EXPERT \<and> team_size r \<ge> 5
       then [''Low budget with large expert team suggests potential resource mismatch'']
       else [])
    @ (if scalability_needs r = SMALL \<and> team_size r \<ge> 8
       then [''Small scalability needs with large team may lead to over-engineering'']
       else [])
    @ (if budget r = Budget_HIGH \<and> timeline r = TIGHT \<and> expertise_level r = BEGINNER
       then [''High budget with tight timeline and beginner team may indicate poor planning'']
       else [])"

definition validate_weights :: "real dict \<Rightarrow> error + unit" where
  "validate_weights weights =
    (if weights = [] then Inl ValueError
     else if \<not> set standard_dimensions \<subseteq> set (map fst weights) then Inl ValueError
     else if \<not> list_all (\<lambda>(dimn, weight). 0 \<le> weight \<and> weight \<le> 1) weights then Inl ValueError
     else let total_weight = sum_list (dict_values weights) in
       if \<not> (0.95 \<le> total_weight \<and> total_weight \<le> 1.05) then Inl ValueError
       else if Max (set (dict_values weights)) > 0.6 then Inl ValueError
       else if Min (set (dict_values weights)) < 0.05 then Inl ValueError
       else Inr ())"

definition identify_priority_factors :: "ProjectRequirements \<Rightarrow> string list" where
  "identify_priority_factors r =
    rev (remdups (rev (
      (case budget r of
         Budget_LOW \<Rightarrow> [''Cost optimization and budget constraints'', ''Open-source solutions preferred'']
       | Budget_MEDIUM \<Rightarrow> [''Balanced cost considerations'']
       | Budget_HIGH \<Rightarrow> [])
    @ (case timeline r of
         TIGHT \<Rightarrow> [''Rapid development and deployment'', ''Minimal learning curve required'',
                   ''Simple implementation approach'']
       | MODERATE \<Rightarrow> [''Reasonable learning curve acceptable'']
       | FLEXIBLE \<Rightarrow> [])
    @ (case scalability_needs r of
         LARGE \<Rightarrow> [''Horizontal scalability requirements'', ''High performance optimization'',
                   ''Enterprise-grade reliability'']
       | Scale_MEDIUM \<Rightarrow> [''Moderate scalability needs'', ''Performance considerations'']
       | SMALL \<Rightarrow> [])
    @ (if team_size r \<ge> 5 then [''Team collaboration features'', ''Mature tooling ecosystem''] else [])
    @ (case expertise_level r of
         BEGINNER \<Rightarrow> [''Strong ecosystem and community support'',
                      ''Comprehensive documentation needed'', ''Gentle learning curve essential'']
       | INTERMEDIATE \<Rightarrow> [''Good community support helpful'']
       | EXPERT \<Rightarrow> [''Advanced customization capabilities'', ''Cutting-edge features available'']))))"

text \<open>
  \<open>process_requirements\<close> calls the processor's \<open>_detect_requirement_conflicts\<close>
  attribute, which the command-line application replaces to bypass the check; the
  detector is therefore an argument. Every exception other than
  ConflictingRequirementsError leaves as RequirementsProcessingError.
\<close>

definition process_requirements_with ::
  "(ProjectRequirements \<Rightarrow> string list) \<Rightarrow> ProjectRequirements \<Rightarrow> error + WeightedCriteria" where
  "process_requirements_with detect r =
    (case validate_requirements r of
       Inl e \<Rightarrow> Inl RequirementsProcessingError
     | Inr u \<Rightarrow>
        (let conflicts = detect r in
         if conflicts \<noteq> [] then Inl (ConflictingRequirementsError conflicts)
         else
           (let dimension_weights = calculate_dimension_weights r;
                priority_factors = identify_priority_factors r
            in case validate_weights dimension_weights of
                 Inl e \<Rightarrow> Inl RequirementsProcessingError
               | Inr u \<Rightarrow> Inr \<lparr>dimension_weights = dimension_weights,
                                priority_factors = priority_factors\<rparr>)))"

definition process_requirements :: "ProjectRequirements \<Rightarrow> error + WeightedCriteria" where
  "process_requirements = process_requirements_with detect_requirement_conflicts"

text \<open>
  The requirements stage of \<open>RefereeApplication.run\<close> (cli.py): a
  ConflictingRequirementsError is reported as warnings, then the requirements are
  processed again with conflict detection disabled. The result is the list of conflicts
  shown to the user and the outcome of the stage.
\<close>

definition run_requirements_stage :: "ProjectRequirements \<Rightarrow> string list \<times> (error + WeightedCriteria)" where
  "run_requirements_stage r =
    (case process_requirements r of
       Inl (ConflictingRequirementsError conflicts) \<Rightarrow>
         (conflicts, process_requirements_with (\<lambda>req. []) r)
     | res \<Rightarrow> ([], res))"

section \<open>Comparison engine (comparison_engine.py)\<close>

definition clamp01 :: "real \<Rightarrow> real" where
  "clamp01 x = max 0 (min 1 x)"

text \<open>
  The loop of \<open>calculate_compatibility\<close> over \<open>dimension_weights.items()\<close>, carrying
  \<open>(total_weighted_score, total_weight)\<close>.
\<close>

fun compatibility_loop :: "DimensionScore dict \<Rightarrow> real dict \<Rightarrow> real \<times> real \<Rightarrow> real \<times> real" where
  "compatibility_loop tdims [] acc = acc"
| "compatibility_loop tdims ((dimn, weight) # rest) (total_weighted_score, total_weight) =
    (if weight \<le> 0 then compatibility_loop tdims rest (total_weighted_score, total_weight)
     else (case map_of tdims dimn of
        Some ds \<Rightarrow>
          (let dim_score = score ds;
               normalized_score = max 0 (min 1 (dim_score / 5.0));
               weighted_contribution = normalized_score * weight
           in compatibility_loop tdims rest
                (total_weighted_score + weighted_contribution, total_weight + weight))
      | None \<Rightarrow>
          (let neutral_score = 0.5;
               weighted_contribution = neutral_score * weight * 0.5
           in compatibility_loop tdims rest
                (total_weighted_score + weighted_contribution, total_weight + weight * 0.5))))"

text \<open>
  Constructing a CompatibilityScore validates its fields: a non-empty technology name and
  a score in [0, 1]. Every failure inside \<open>calculate_compatibility\<close> leaves as
  ComparisonError.
\<close>

definition make_CompatibilityScore :: "string \<Rightarrow> real \<Rightarrow> error + CompatibilityScore" where
  "make_CompatibilityScore tname s =
    (if tname = [] \<or> \<not> (0 \<le> s \<and> s \<le> 1) then Inl ValueError
     else Inr \<lparr>technology = tname, compat_score = s\<rparr>)"

definition calculate_compatibility :: "TechnologyProfile \<Rightarrow> WeightedCriteria \<Rightarrow> error + CompatibilityScore" where
  "calculate_compatibility tech wc =
    (if dimension_weights wc = [] then Inl ComparisonError
     else
       (let (total_weighted_score, total_weight) =
              compatibility_loop (dimensions tech) (dimension_weights wc) (0, 0);
            final_score = (if total_weight > 0 then total_weighted_score / total_weight else 0.5)
        in case make_CompatibilityScore (name tech) (max 0 (min 1 final_score)) of
             Inl e \<Rightarrow> Inl ComparisonError
           | Inr cs \<Rightarrow> Inr cs))"

definition get_comparison_dimensions :: "string list option \<Rightarrow> error + string list" where
  "get_comparison_dimensions custom_dimensions =
    (case custom_dimensions of
       None \<Rightarrow> Inr standard_dimensions
     | Some cds \<Rightarrow>
         if cds = [] then Inr standard_dimensions
         else if set cds \<inter> set standard_dimensions \<noteq> {} then Inl ValueError
         else Inr (standard_dimensions @ cds))"

text \<open>\<open>xs.index(x)\<close> for an element that is present.\<close>

fun index_of :: "'a \<Rightarrow> 'a list \<Rightarrow> nat" where
  "index_of x [] = 0"
| "index_of x (y # ys) = (if y = x then 0 else Suc (index_of x ys))"

text \<open>
  One round of the loop of \<open>_identify_highlights\<close>, for the dimn at column
  \<open>dim_idx\<close>. Reading outside the score matrix raises IndexError, \<open>max\<close> of no scores
  and a TradeoffHighlight with an empty field raise ValueError. The text of a number
  printed with one decimal (\<open>:.1f\<close>) is given by \<open>fmt\<close>.
\<close>

definition highlight_for ::
  "(real \<Rightarrow> string) \<Rightarrow> TechnologyProfile list \<Rightarrow> real list list \<Rightarrow> nat \<Rightarrow> string
     \<Rightarrow> error + TradeoffHighlight option" where
  "highlight_for fmt technologies scs dim_idx dimn =
    (if \<exists>tech_idx \<in> set [0..<length technologies].
          \<not> (tech_idx < length scs \<and> dim_idx < length (scs ! tech_idx)) then Inl IndexError
     else
       (let dim_scores = map (\<lambda>tech_idx. scs ! tech_idx ! dim_idx) [0..<length technologies] in
        if dim_scores = [] then Inl ValueError
        else
          (let max_score = Max (set dim_scores);
               max_tech_idx = index_of max_score dim_scores;
               leader_tech = name (technologies ! max_tech_idx);
               sorted_scores = sorted_reverse (\<lambda>x. x) dim_scores
           in if length sorted_scores > 1 \<and> sorted_scores ! 0 - sorted_scores ! 1 \<ge> 0.5 then
                (let expl = (case map_of (dimensions (technologies ! max_tech_idx)) dimn of
                               Some ds \<Rightarrow> explanation ds
                             | None \<Rightarrow> ''Leads in '' @ dimn @ '' with score of '' @ fmt max_score)
                 in if dimn = [] \<or> leader_tech = [] \<or> expl = [] then Inl ValueError
                    else Inr (Some \<lparr>dimension = dimn, leader = leader_tech,
                                    hl_explanation = expl\<rparr>))
              else Inr None)))"

fun highlights_loop ::
  "(real \<Rightarrow> string) \<Rightarrow> TechnologyProfile list \<Rightarrow> real list list \<Rightarrow> (nat \<times> string) list
     \<Rightarrow> error + TradeoffHighlight list" where
  "highlights_loop fmt technologies scs [] = Inr []"
| "highlights_loop fmt technologies scs ((dim_idx, dimn) # rest) =
    (case highlight_for fmt technologies scs dim_idx dimn of
       Inl e \<Rightarrow> Inl e
     | Inr h \<Rightarrow>
        (case highlights_loop fmt technologies scs rest of
           Inl e \<Rightarrow> Inl e
         | Inr hs \<Rightarrow> Inr ((case h of None \<Rightarrow> [] | Some x \<Rightarrow> [x]) @ hs)))"

definition identify_highlights ::
  "(real \<Rightarrow> string) \<Rightarrow> TechnologyProfile list \<Rightarrow> string list \<Rightarrow> real list list
     \<Rightarrow> error + TradeoffHighlight list" where
  "identify_highlights fmt technologies dims scs =
     highlights_loop fmt technologies scs (enumerate 0 dims)"

definition validate_matrix_inputs :: "TechnologyProfile list \<Rightarrow> string list \<Rightarrow> error + unit" where
  "validate_matrix_inputs technologies dims =
    (if technologies = [] then Inl ValueError
     else if dims = [] then Inl ValueError
     else if length dims > 10 then Inl ValueError
     else Inr ())"

definition matrix_scores :: "TechnologyProfile list \<Rightarrow> string list \<Rightarrow> real list list" where
  "matrix_scores technologies dims =
     map (\<lambda>tech. map (\<lambda>dimn. case map_of (dimensions tech) dimn of
                                      Some dim_score \<Rightarrow> score dim_score | None \<Rightarrow> 3.0) dims)
       technologies"

definition matrix_explanations :: "TechnologyProfile list \<Rightarrow> string list \<Rightarrow> string list list" where
  "matrix_explanations technologies dims =
     map (\<lambda>tech. map (\<lambda>dimn. case map_of (dimensions tech) dimn of
                                      Some dim_score \<Rightarrow> explanation dim_score
                                    | None \<Rightarrow> ''No specific data available for '' @ dimn) dims)
       technologies"

text \<open>
  A failure of \<open>_identify_highlights\<close> gives no highlights; constructing the
  TradeoffMatrix requires at least two technologies and one dimn; every failure
  leaves as ComparisonError.
\<close>

definition create_tradeoff_matrix ::
  "(real \<Rightarrow> string) \<Rightarrow> TechnologyProfile list \<Rightarrow> string list \<Rightarrow> error + TradeoffMatrix" where
  "create_tradeoff_matrix fmt technologies dims =
    (case validate_matrix_inputs technologies dims of
       Inl e \<Rightarrow> Inl ComparisonError
     | Inr u \<Rightarrow>
        (let tech_names = map name technologies;
             scs = matrix_scores technologies dims;
             expls = matrix_explanations technologies dims;
             hls = (case identify_highlights fmt technologies dims scs of
                      Inl e \<Rightarrow> [] | Inr hs \<Rightarrow> hs)
         in if length tech_names < 2 \<or> length dims < 1 then Inl ComparisonError
            else Inr \<lparr>tm_technologies = tech_names, tm_dimensions = dims, scores = scs,
                      explanations = expls, highlights = hls\<rparr>))"

definition validate_comparison_inputs ::
  "TechnologyProfile list \<Rightarrow> WeightedCriteria \<Rightarrow> string list option \<Rightarrow> error + unit" where
  "validate_comparison_inputs technologies wc custom_dimensions =
    (if technologies = [] then Inl ValueError
     else if length technologies < 2 then Inl ValueError
     else if length technologies > 5 then Inl ValueError
     else if dimension_weights wc = [] then Inl InsufficientDataError
     else
       (let insufficient_data_count =
              length (filter (\<lambda>tech. dimensions tech = [] \<or> length (dimensions tech) < 3) technologies)
        in if real insufficient_data_count > real (length technologies) / 2
           then Inl InsufficientDataError else Inr ()))"

text \<open>
  \<open>_create_fallback_compatibility_score\<close> constructs a CompatibilityScore too, so it fails
  on an empty name.
\<close>

definition create_fallback_compatibility_score :: "TechnologyProfile \<Rightarrow> error + CompatibilityScore" where
  "create_fallback_compatibility_score tech = make_CompatibilityScore (name tech) 0.5"

fun compatibility_scores_loop ::
  "TechnologyProfile list \<Rightarrow> WeightedCriteria \<Rightarrow> error + CompatibilityScore list" where
  "compatibility_scores_loop [] wc = Inr []"
| "compatibility_scores_loop (tech # rest) wc =
    (case (case calculate_compatibility tech wc of
             Inr s \<Rightarrow> Inr s
           | Inl e \<Rightarrow> create_fallback_compatibility_score tech) of
       Inl e \<Rightarrow> Inl e
     | Inr s \<Rightarrow> (case compatibility_scores_loop rest wc of
                   Inl e \<Rightarrow> Inl e | Inr ss \<Rightarrow> Inr (s # ss)))"

definition generate_side_by_side_data :: "TechnologyProfile list \<Rightarrow> TechnologyProfile dict" where
  "generate_side_by_side_data technologies =
     foldl (\<lambda>d tech. dict_set d (name tech) tech) [] technologies"

text \<open>
  The validation runs outside the \<open>try\<close> block, so its errors leave unchanged; every failure
  after it leaves as ComparisonError.
\<close>

definition generate_comparison ::
  "(real \<Rightarrow> string) \<Rightarrow> TechnologyProfile list \<Rightarrow> WeightedCriteria \<Rightarrow> string list option
     \<Rightarrow> error + ComparisonResult" where
  "generate_comparison fmt technologies wc custom_dimensions =
    (case validate_comparison_inputs technologies wc custom_dimensions of
       Inl e \<Rightarrow> Inl e
     | Inr u \<Rightarrow>
        (case get_comparison_dimensions custom_dimensions of
           Inl e \<Rightarrow> Inl ComparisonError
         | Inr dims \<Rightarrow>
            (case create_tradeoff_matrix fmt technologies dims of
               Inl e \<Rightarrow> Inl ComparisonError
             | Inr matrix \<Rightarrow>
                (case compatibility_scores_loop technologies wc of
                   Inl e \<Rightarrow> Inl ComparisonError
                 | Inr css \<Rightarrow>
                     Inr \<lparr>cr_technologies = map name technologies,
                          comparison_data = generate_side_by_side_data technologies,
                          tradeoff_matrix = matrix,
                          compatibility_scores = css,
                          weighted_criteria = wc\<rparr>))))"

text \<open>The validators of the pydantic models (models.py), as predicates.\<close>

definition valid_DimensionScore :: "DimensionScore \<Rightarrow> bool" where
  "valid_DimensionScore ds \<longleftrightarrow> 0 \<le> score ds \<and> score ds \<le> 5 \<and> explanation ds \<noteq> []"

definition valid_TechnologyProfile :: "TechnologyProfile \<Rightarrow> bool" where
  "valid_TechnologyProfile t \<longleftrightarrow>
     name t \<noteq> [] \<and> category t \<noteq> [] \<and> distinct (map fst (dimensions t))
     \<and> list_all (\<lambda>(k, ds). valid_DimensionScore ds) (dimensions t)
     \<and> set standard_dimensions \<subseteq> set (map fst (dimensions t))
     \<and> pros t \<noteq> [] \<and> cons t \<noteq> [] \<and> best_for t \<noteq> []
     \<and> license (metadata t) \<noteq> [] \<and> maintainer (metadata t) \<noteq> []"

definition valid_WeightedCriteria :: "WeightedCriteria \<Rightarrow> bool" where
  "valid_WeightedCriteria wc \<longleftrightarrow>
     distinct (map fst (dimension_weights wc))
     \<and> list_all (\<lambda>(k, w). 0 \<le> w \<and> w \<le> 1) (dimension_weights wc)"

section \<open>Recommendation engine (recommendation_engine.py)\<close>

text \<open>\<open>{tech.name: tech for tech in technologies}\<close>\<close>

definition tech_lookup :: "TechnologyProfile list \<Rightarrow> TechnologyProfile dict" where
  "tech_lookup technologies = foldl (\<lambda>d tech. dict_set d (name tech) tech) [] technologies"

definition absolute_confidence :: "real \<Rightarrow> ConfidenceLevel" where
  "absolute_confidence s = (if s \<ge> 0.8 then HIGH else if s \<ge> 0.6 then MEDIUM else LOW)"

definition calculate_confidence ::
  "CompatibilityScore \<Rightarrow> CompatibilityScore list \<Rightarrow> nat \<Rightarrow> ConfidenceLevel" where
  "calculate_confidence comp_score all_scores rank =
    (let s = compat_score comp_score in
     if rank = 0 \<and> length all_scores > 1 then
       (let second_score = compat_score (all_scores ! 1) in
        if second_score > 0 then
          (let percentage_gap = (s - second_score) / second_score in
           if percentage_gap \<le> 0.02 then LOW
           else if percentage_gap \<le> 0.05 then (if s \<ge> 0.85 then MEDIUM else LOW)
           else if percentage_gap \<le> 0.15 then
             (if s \<ge> 0.8 then HIGH else if s \<ge> 0.6 then MEDIUM else LOW)
           else (if s \<ge> 0.7 then HIGH else if s \<ge> 0.5 then MEDIUM else LOW))
        else (if s \<ge> 0.8 then HIGH else if s \<ge> 0.6 then MEDIUM else LOW))
     else (if s \<ge> 0.8 then HIGH else if s \<ge> 0.6 then MEDIUM else LOW))"

text \<open>Constructing a RankedChoice validates a non-empty name and a score in [0, 1].\<close>

definition make_RankedChoice :: "string \<Rightarrow> real \<Rightarrow> ConfidenceLevel \<Rightarrow> error + RankedChoice" where
  "make_RankedChoice tname s c =
    (if tname = [] \<or> \<not> (0 \<le> s \<and> s \<le> 1) then Inl ValueError
     else Inr \<lparr>rc_technology = tname, rc_score = s, confidence = c\<rparr>)"

text \<open>
  The loop of \<open>_create_ranked_choices\<close> over \<open>enumerate(sorted_scores)\<close>;
  \<open>tech_lookup[comp_score.technology]\<close> raises KeyError for an unknown name.
\<close>

fun ranked_choices_loop ::
  "TechnologyProfile dict \<Rightarrow> CompatibilityScore list \<Rightarrow> (nat \<times> CompatibilityScore) list
     \<Rightarrow> error + RankedChoice list" where
  "ranked_choices_loop lookup sorted_scores [] = Inr []"
| "ranked_choices_loop lookup sorted_scores ((i, comp_score) # rest) =
    (case map_of lookup (technology comp_score) of
       None \<Rightarrow> Inl KeyError
     | Some tech \<Rightarrow>
        (case make_RankedChoice (technology comp_score) (compat_score comp_score)
                (calculate_confidence comp_score sorted_scores i) of
           Inl e \<Rightarrow> Inl e
         | Inr ranked_choice \<Rightarrow>
            (case ranked_choices_loop lookup sorted_scores rest of
               Inl e \<Rightarrow> Inl e
             | Inr rcs \<Rightarrow> Inr (ranked_choice # rcs))))"

definition create_ranked_choices ::
  "TechnologyProfile list \<Rightarrow> CompatibilityScore list \<Rightarrow> error + RankedChoice list" where
  "create_ranked_choices technologies css =
    (let sorted_scores = sorted_reverse compat_score css
     in ranked_choices_loop (tech_lookup technologies) sorted_scores (enumerate 0 sorted_scores))"

text \<open>
  Each loop of \<open>_generate_alternative_scenarios\<close> first reads
  \<open>tech_lookup[score.technology]\<close> for every score in turn; \<open>lookup_all\<close> is that read,
  KeyError on the first unknown name. \<open>compatibility_scores[0]\<close> is read only after a loop
  has chosen a technology, so the list is not empty there.
\<close>

fun lookup_all :: "TechnologyProfile dict \<Rightarrow> CompatibilityScore list \<Rightarrow> error + TechnologyProfile list" where
  "lookup_all lookup [] = Inr []"
| "lookup_all lookup (s # rest) =
    (case map_of lookup (technology s) of
       None \<Rightarrow> Inl KeyError
     | Some tech \<Rightarrow> (case lookup_all lookup rest of Inl e \<Rightarrow> Inl e | Inr ts \<Rightarrow> Inr (tech # ts)))"

text \<open>The three selection loops, carrying \<open>(best score so far, chosen name or None)\<close>.\<close>

fun budget_focused_loop :: "TechnologyProfile list \<Rightarrow> real \<times> string option \<Rightarrow> real \<times> string option" where
  "budget_focused_loop [] acc = acc"
| "budget_focused_loop (tech # rest) (best_cost_score, budget_focused_tech) =
    (case map_of (dimensions tech) ''cost'' of
       Some ds \<Rightarrow>
         (let cost_effectiveness = 5.0 - score ds in
          if cost_effectiveness > best_cost_score
          then budget_focused_loop rest (cost_effectiveness, Some (name tech))
          else budget_focused_loop rest (best_cost_score, budget_focused_tech))
     | None \<Rightarrow> budget_focused_loop rest (best_cost_score, budget_focused_tech))"

fun scalability_focused_loop :: "TechnologyProfile list \<Rightarrow> real \<times> string option \<Rightarrow> real \<times> string option" where
  "scalability_focused_loop [] acc = acc"
| "scalability_focused_loop (tech # rest) (best_scale_score, scalability_focused_tech) =
    (case map_of (dimensions tech) ''scalability'' of
       Some ds \<Rightarrow>
         (let scale_score = score ds in
          if scale_score > best_scale_score
          then scalability_focused_loop rest (scale_score, Some (name tech))
          else scalability_focused_loop rest (best_scale_score, scalability_focused_tech))
     | None \<Rightarrow> scalability_focused_loop rest (best_scale_score, scalability_focused_tech))"

fun simplicity_focused_loop :: "TechnologyProfile list \<Rightarrow> real \<times> string option \<Rightarrow> real \<times> string option" where
  "simplicity_focused_loop [] acc = acc"
| "simplicity_focused_loop (tech # rest) (best_simplicity_score, simplicity_focused_tech) =
    (case map_of (dimensions tech) ''complexity'' of
       Some ds \<Rightarrow>
         (let complexity_score = score ds in
          if complexity_score < best_simplicity_score
          then simplicity_focused_loop rest (complexity_score, Some (name tech))
          else simplicity_focused_loop rest (best_simplicity_score, simplicity_focused_tech))
     | None \<Rightarrow> simplicity_focused_loop rest (best_simplicity_score, simplicity_focused_tech))"

text \<open>Truth value of an optional string: neither None nor empty.\<close>

definition truthy :: "string option \<Rightarrow> bool" where
  "truthy s = (case s of None \<Rightarrow> False | Some x \<Rightarrow> x \<noteq> [])"

definition generate_alternative_scenarios ::
  "TechnologyProfile list \<Rightarrow> CompatibilityScore list \<Rightarrow> error + AlternativeScenario list option" where
  "generate_alternative_scenarios technologies css =
    (case lookup_all (tech_lookup technologies) css of
       Inl e \<Rightarrow> Inl e
     | Inr techs \<Rightarrow>
         (let budget_focused_tech = snd (budget_focused_loop techs (0, None));
              scenarios1 =
                (if truthy budget_focused_tech then
                   [\<lparr>scenario = ''If budget becomes the primary constraint'',
                     recommended_tech = the budget_focused_tech,
                     as_explanation = ''This option offers the best cost-effectiveness for the project requirements''\<rparr>]
                 else []);
              scalability_focused_tech = snd (scalability_focused_loop techs (0, None));
              scenarios2 =
                (if truthy scalability_focused_tech
                    \<and> the scalability_focused_tech \<noteq> technology (hd css) then
                   [\<lparr>scenario = ''If scalability becomes the top priority'',
                     recommended_tech = the scalability_focused_tech,
                     as_explanation = ''This option provides the strongest scalability capabilities''\<rparr>]
                 else []);
              simplicity_focused_tech = snd (simplicity_focused_loop techs (6.0, None));
              scenarios3 =
                (if truthy simplicity_focused_tech
                    \<and> the simplicity_focused_tech \<noteq> technology (hd css) then
                   [\<lparr>scenario = ''If team expertise is limited or learning curve is a concern'',
                     recommended_tech = the simplicity_focused_tech,
                     as_explanation = ''This option offers the lowest complexity and easiest learning curve''\<rparr>]
                 else []);
              scenarios = scenarios1 @ scenarios2 @ scenarios3
          in Inr (if scenarios \<noteq> [] then Some scenarios else None)))"

text \<open>
  Constructing the Recommendation validates at least one ranked choice, unique
  technologies in the ranking, and scores equal to their descending sort.
\<close>

definition make_Recommendation ::
  "RankedChoice list \<Rightarrow> AlternativeScenario list option \<Rightarrow> error + Recommendation" where
  "make_Recommendation rcs alts =
    (if rcs = [] then Inl ValueError
     else if length (map rc_technology rcs) \<noteq> card (set (map rc_technology rcs)) then Inl ValueError
     else if map rc_score rcs \<noteq> sorted_reverse (\<lambda>x. x) (map rc_score rcs) then Inl ValueError
     else Inr \<lparr>ranked_choices = rcs, alternative_scenarios = alts\<rparr>)"

definition generate_recommendation ::
  "TechnologyProfile list \<Rightarrow> CompatibilityScore list \<Rightarrow> WeightedCriteria \<Rightarrow> error + Recommendation" where
  "generate_recommendation technologies css wc =
    (if technologies = [] then Inl ValueError
     else if length css \<noteq> length technologies then Inl ValueError
     else
       (case create_ranked_choices technologies css of
          Inl e \<Rightarrow> Inl e
        | Inr rcs \<Rightarrow>
           (case generate_alternative_scenarios technologies css of
              Inl e \<Rightarrow> Inl e
            | Inr alts \<Rightarrow> make_Recommendation rcs alts)))"

section \<open>Knowledge store (analyzer.py)\<close>

text \<open>
  Strings are ASCII: \<open>lower\<close> maps the letters A to Z, \<open>strip\<close> and \<open>split\<close> use Python's
  white space below U+0080.
\<close>

definition lower_char :: "char \<Rightarrow> char" where
  "lower_char c =
    (case map_of (zip ''ABCDEFGHIJKLMNOPQRSTUVWXYZ'' ''abcdefghijklmnopqrstuvwxyz'') c of
       Some l \<Rightarrow> l | None \<Rightarrow> c)"

definition lower :: "string \<Rightarrow> string" where
  "lower s = map lower_char s"

definition is_space :: "char \<Rightarrow> bool" where
  "is_space c \<longleftrightarrow> c \<in> set [CHR 0x09, CHR 0x0A, CHR 0x0B, CHR 0x0C, CHR 0x0D,
                          CHR 0x1C, CHR 0x1D, CHR 0x1E, CHR 0x1F, CHR 0x20]"

definition strip :: "string \<Rightarrow> string" where
  "strip s = rev (dropWhile is_space (rev (dropWhile is_space s)))"

text \<open>\<open>s.split()\<close>: the maximal runs of non-space characters.\<close>

fun split_loop :: "string \<Rightarrow> string \<Rightarrow> string list" where
  "split_loop cur [] = (if cur = [] then [] else [rev cur])"
| "split_loop cur (c # cs) =
    (if is_space c then (if cur = [] then split_loop [] cs else rev cur # split_loop [] cs)
     else split_loop (c # cur) cs)"

definition split :: "string \<Rightarrow> string list" where
  "split s = split_loop [] s"

definition abbreviation_map :: "string dict" where
  "abbreviation_map =
    [(''js'', ''javascript''), (''ts'', ''typescript''), (''py'', ''python''),
     (''pg'', ''postgresql''), (''mongo'', ''mongodb''), (''k8s'', ''kubernetes''),
     (''aws'', ''amazon web services'')]"

definition is_abbreviation_match :: "string \<Rightarrow> string \<Rightarrow> bool" where
  "is_abbreviation_match abbrev full_name =
    (if length abbrev < 2 then False
     else
       (let wds = split (lower full_name) in
        if length wds \<ge> 2 \<and> abbrev = map hd (filter (\<lambda>w. w \<noteq> []) wds) then True
        else (case map_of abbreviation_map abbrev of
                None \<Rightarrow> False
              | Some full \<Rightarrow> sublist full (lower full_name))))"

text \<open>
  \<open>get_technology_profile\<close> over a knowledge base \<open>kb\<close> in insertion order: exact key,
  then equal lower-case names, then the first entry with a substring or abbreviation
  match. \<open>None\<close> is Python's \<open>None\<close>.
\<close>

definition get_technology_profile :: "TechnologyProfile dict \<Rightarrow> string \<Rightarrow> TechnologyProfile option" where
  "get_technology_profile kb technology_name =
    (if technology_name = [] \<or> strip technology_name = [] then None
     else
       (case map_of kb technology_name of
          Some profile \<Rightarrow> Some profile
        | None \<Rightarrow>
           (case find (\<lambda>(known_tech, profile). lower known_tech = lower technology_name) kb of
              Some (known_tech, profile) \<Rightarrow> Some profile
            | None \<Rightarrow>
               (let normalized_input = strip (lower technology_name) in
                case find (\<lambda>(known_tech, profile).
                             (let known_lower = lower known_tech in
                              sublist normalized_input known_lower
                              \<or> sublist known_lower normalized_input
                              \<or> is_abbreviation_match normalized_input known_lower)) kb of
                  Some (known_tech, profile) \<Rightarrow> Some profile
                | None \<Rightarrow> None))))"

definition kb_REST :: TechnologyProfile where
  "kb_REST =
    \<lparr>name = ''REST'',
     category = ''API'',
     dimensions =
       [(''cost'', \<lparr>score = 4.5,
          explanation = ''Low implementation cost, uses standard HTTP infrastructure''\<rparr>),
        (''scalability'', \<lparr>score = 4,
          explanation = ''Scales well with caching and CDNs, stateless nature helps''\<rparr>),
        (''complexity'', \<lparr>score = 4.5,
          explanation = ''Simple to understand and implement, follows HTTP conventions''\<rparr>),
        (''ecosystem'', \<lparr>score = 5,
          explanation = ''Mature ecosystem with extensive tooling and library support''\<rparr>),
        (''performance'', \<lparr>score = 3.5,
          explanation = ''Good performance but can be chatty with multiple round trips''\<rparr>)],
     pros =
       [''Simple and intuitive HTTP-based design'',
        ''Excellent caching capabilities'',
        ''Wide tooling and client library support'',
        ''Stateless architecture enables easy scaling'',
        ''Human-readable URLs and responses''],
     cons =
       [''Can require multiple requests for complex data'',
        ''Over-fetching or under-fetching of data'',
        ''Limited real-time capabilities without additional protocols'',
        ''Versioning can become complex over time''],
     best_for =
       [''CRUD operations and resource-based APIs'',
        ''Public APIs with broad client compatibility'',
        ''Simple to moderate complexity applications'',
        ''Teams new to API development'',
        ''Applications requiring strong caching''],
     metadata = \<lparr>maturity = MATURE, license = ''Standard'', maintainer = ''W3C/IETF Standards''\<rparr>\<rparr>"

definition kb_GraphQL :: TechnologyProfile where
  "kb_GraphQL =
    \<lparr>name = ''GraphQL'',
     category = ''API'',
     dimensions =
       [(''cost'', \<lparr>score = 3,
          explanation = ''Higher implementation complexity increases development costs''\<rparr>),
        (''scalability'', \<lparr>score = 4.5,
          explanation = ''Excellent query optimization and single endpoint scaling''\<rparr>),
        (''complexity'', \<lparr>score = 2.5,
          explanation = ''Steep learning curve, complex schema design and resolver logic''\<rparr>),
        (''ecosystem'', \<lparr>score = 4,
          explanation = ''Growing ecosystem with good tooling, but less mature than REST''\<rparr>),
        (''performance'', \<lparr>score = 4.5,
          explanation = ''Efficient data fetching, reduces over-fetching significantly''\<rparr>)],
     pros =
       [''Single endpoint for all data needs'',
        ''Eliminates over-fetching and under-fetching'',
        ''Strong type system and introspection'',
        ''Excellent developer tooling and debugging'',
        ''Real-time subscriptions built-in''],
     cons =
       [''Complex caching strategies required'',
        ''Steep learning curve for teams'',
        ''Potential for expensive queries without proper limits'',
        ''Less suitable for simple CRUD operations''],
     best_for =
       [''Complex data relationships and queries'',
        ''Mobile applications with bandwidth constraints'',
        ''Rapid frontend development with changing requirements'',
        ''Applications requiring real-time features'',
        ''Teams with strong backend expertise''],
     metadata = \<lparr>maturity = STABLE, license = ''MIT'', maintainer = ''GraphQL Foundation''\<rparr>\<rparr>"

definition kb_AWS_Lambda :: TechnologyProfile where
  "kb_AWS_Lambda =
    \<lparr>name = ''AWS Lambda'',
     category = ''Cloud Service'',
     dimensions =
       [(''cost'', \<lparr>score = 4,
          explanation = ''Pay-per-execution model, cost-effective for variable workloads''\<rparr>),
        (''scalability'', \<lparr>score = 5,
          explanation = ''Automatic scaling to handle any load, virtually unlimited''\<rparr>),
        (''complexity'', \<lparr>score = 3,
          explanation = ''Serverless paradigm requires different thinking, cold start considerations''\<rparr>),
        (''ecosystem'', \<lparr>score = 4.5,
          explanation = ''Rich AWS ecosystem integration, extensive third-party support''\<rparr>),
        (''performance'', \<lparr>score = 3.5,
          explanation = ''Good performance but cold starts can impact latency''\<rparr>)],
     pros =
       [''No server management required'',
        ''Automatic scaling and high availability'',
        ''Pay only for actual execution time'',
        ''Seamless integration with AWS services'',
        ''Built-in monitoring and logging''],
     cons =
       [''Cold start latency for infrequent functions'',
        ''15-minute maximum execution time limit'',
        ''Vendor lock-in to AWS ecosystem'',
        ''Complex debugging and local development'',
        ''Limited control over runtime environment''],
     best_for =
       [''Event-driven architectures'',
        ''Microservices with variable load'',
        ''Data processing and ETL pipelines'',
        ''API backends with unpredictable traffic'',
        ''Startups wanting to minimize infrastructure overhead''],
     metadata = \<lparr>maturity = MATURE, license = ''Proprietary'', maintainer = ''Amazon Web Services''\<rparr>\<rparr>"

definition kb_EC2 :: TechnologyProfile where
  "kb_EC2 =
    \<lparr>name = ''EC2'',
     category = ''Cloud Service'',
     dimensions =
       [(''cost'', \<lparr>score = 3,
          explanation = ''Predictable costs but requires capacity planning and optimization''\<rparr>),
        (''scalability'', \<lparr>score = 4,
          explanation = ''Good scaling with auto-scaling groups, but requires configuration''\<rparr>),
        (''complexity'', \<lparr>score = 2.5,
          explanation = ''Requires server management, security patching, and infrastructure knowledge''\<rparr>),
        (''ecosystem'', \<lparr>score = 4.5,
          explanation = ''Mature ecosystem with extensive AWS integration and tooling''\<rparr>),
        (''performance'', \<lparr>score = 4.5,
          explanation = ''Excellent performance with full control over compute resources''\<rparr>)],
     pros =
       [''Full control over server environment'',
        ''Consistent performance without cold starts'',
        ''Wide variety of instance types and configurations'',
        ''Mature tooling and deployment options'',
        ''No execution time limits''],
     cons =
       [''Requires server management and maintenance'',
        ''Always-on costs even during idle periods'',
        ''Manual scaling configuration needed'',
        ''Security and patching responsibilities'',
        ''More complex deployment processes''],
     best_for =
       [''Long-running applications and services'',
        ''Applications requiring specific server configurations'',
        ''High-performance computing workloads'',
        ''Legacy applications with specific requirements'',
        ''Teams with strong DevOps capabilities''],
     metadata = \<lparr>maturity = MATURE, license = ''Proprietary'', maintainer = ''Amazon Web Services''\<rparr>\<rparr>"

definition kb_React :: TechnologyProfile where
  "kb_React =
    \<lparr>name = ''React'',
     category = ''Frontend Framework'',
     dimensions =
       [(''cost'', \<lparr>score = 4.5,
          explanation = ''Free and open-source with large talent pool reducing costs''\<rparr>),
        (''scalability'', \<lparr>score = 4,
          explanation = ''Scales well for large applications with proper architecture''\<rparr>),
        (''complexity'', \<lparr>score = 3.5,
          explanation = ''Moderate learning curve, requires understanding of modern JS concepts''\<rparr>),
        (''ecosystem'', \<lparr>score = 5,
          explanation = ''Largest ecosystem with extensive libraries and community support''\<rparr>),
        (''performance'', \<lparr>score = 4,
          explanation = ''Good performance with virtual DOM, requires optimization for large apps''\<rparr>)],
     pros =
       [''Huge community and ecosystem'',
        ''Excellent developer tools and debugging'',
        ''Component-based architecture promotes reusability'',
        ''Strong job market and talent availability'',
        ''Backed by Meta with long-term support''],
     cons =
       [''Rapid ecosystem changes can cause fatigue'',
        ''JSX syntax has a learning curve'',
        ''Requires additional libraries for full functionality'',
        ''Can become complex with state management needs''],
     best_for =
       [''Large-scale single-page applications'',
        ''Teams with strong JavaScript expertise'',
        ''Projects requiring extensive third-party integrations'',
        ''Applications with complex user interfaces'',
        ''Startups needing fast development and hiring''],
     metadata = \<lparr>maturity = MATURE, license = ''MIT'', maintainer = ''Meta (Facebook)''\<rparr>\<rparr>"

definition kb_Vue :: TechnologyProfile where
  "kb_Vue =
    \<lparr>name = ''Vue'',
     category = ''Frontend Framework'',
     dimensions =
       [(''cost'', \<lparr>score = 4.5,
          explanation = ''Free and open-source with growing talent pool''\<rparr>),
        (''scalability'', \<lparr>score = 4,
          explanation = ''Scales well with good architecture, excellent for medium-large apps''\<rparr>),
        (''complexity'', \<lparr>score = 4.5,
          explanation = ''Gentle learning curve, intuitive template syntax''\<rparr>),
        (''ecosystem'', \<lparr>score = 3.5,
          explanation = ''Growing ecosystem but smaller than React, good official tooling''\<rparr>),
        (''performance'', \<lparr>score = 4.5,
          explanation = ''Excellent performance with efficient reactivity system''\<rparr>)],
     pros =
       [''Gentle learning curve and intuitive syntax'',
        ''Excellent official documentation and tooling'',
        ''Progressive adoption possible in existing projects'',
        ''Great performance out of the box'',
        ''Strong TypeScript support''],
     cons =
       [''Smaller ecosystem compared to React'',
        ''Less job market demand'',
        ''Fewer large-scale enterprise examples'',
        ''Smaller community for complex problem solving''],
     best_for =
       [''Teams new to modern frontend frameworks'',
        ''Small to medium-sized applications'',
        ''Progressive enhancement of existing applications'',
        ''Rapid prototyping and development'',
        ''Projects prioritizing developer experience''],
     metadata = \<lparr>maturity = STABLE, license = ''MIT'', maintainer = ''Evan You / Vue Team''\<rparr>\<rparr>"

definition kb_PostgreSQL :: TechnologyProfile where
  "kb_PostgreSQL =
    \<lparr>name = ''PostgreSQL'',
     category = ''Database'',
     dimensions =
       [(''cost'', \<lparr>score = 5,
          explanation = ''Free and open-source with no licensing costs''\<rparr>),
        (''scalability'', \<lparr>score = 4,
          explanation = ''Good vertical scaling, horizontal scaling requires additional setup''\<rparr>),
        (''complexity'', \<lparr>score = 3,
          explanation = ''Rich feature set requires learning, but well-documented''\<rparr>),
        (''ecosystem'', \<lparr>score = 4.5,
          explanation = ''Mature ecosystem with extensive extensions and tooling''\<rparr>),
        (''performance'', \<lparr>score = 4.5,
          explanation = ''Excellent performance for complex queries and ACID compliance''\<rparr>)],
     pros =
       [''ACID compliance and strong consistency'',
        ''Rich data types including JSON, arrays, and custom types'',
        ''Powerful query capabilities and indexing'',
        ''Extensive extension ecosystem'',
        ''Strong community and enterprise support''],
     cons =
       [''Can be overkill for simple applications'',
        ''Requires more memory than simpler databases'',
        ''Horizontal scaling requires additional complexity'',
        ''Steeper learning curve for advanced features''],
     best_for =
       [''Applications requiring complex queries and transactions'',
        ''Data integrity critical applications'',
        ''Applications with varied data types'',
        ''Analytics and reporting workloads'',
        ''Teams with database expertise''],
     metadata = \<lparr>maturity = MATURE, license = ''PostgreSQL License'', maintainer = ''PostgreSQL Global Development Group''\<rparr>\<rparr>"

definition kb_MongoDB :: TechnologyProfile where
  "kb_MongoDB =
    \<lparr>name = ''MongoDB'',
     category = ''Database'',
     dimensions =
       [(''cost'', \<lparr>score = 3.5,
          explanation = ''Free community version, but enterprise features require licensing''\<rparr>),
        (''scalability'', \<lparr>score = 5,
          explanation = ''Excellent horizontal scaling with built-in sharding''\<rparr>),
        (''complexity'', \<lparr>score = 4,
          explanation = ''Easy to get started, but requires understanding of NoSQL concepts''\<rparr>),
        (''ecosystem'', \<lparr>score = 4,
          explanation = ''Good ecosystem with strong driver support across languages''\<rparr>),
        (''performance'', \<lparr>score = 4,
          explanation = ''Good performance for read-heavy workloads and flexible schemas''\<rparr>)],
     pros =
       [''Flexible schema design and rapid development'',
        ''Excellent horizontal scaling capabilities'',
        ''Native JSON document storage'',
        ''Strong aggregation pipeline for analytics'',
        ''Good performance for read-heavy applications''],
     cons =
       [''Eventual consistency can complicate some use cases'',
        ''Less mature tooling compared to relational databases'',
        ''Can lead to data duplication and inconsistency'',
        ''Memory usage can be higher than relational databases''],
     best_for =
       [''Rapid prototyping and agile development'',
        ''Applications with evolving data schemas'',
        ''Content management and catalog systems'',
        ''Real-time analytics and logging'',
        ''Microservices with independent data models''],
     metadata = \<lparr>maturity = MATURE, license = ''SSPL'', maintainer = ''MongoDB Inc.''\<rparr>\<rparr>"

definition knowledge_base :: "TechnologyProfile dict" where
  "knowledge_base =
    [(''REST'', kb_REST),
     (''GraphQL'', kb_GraphQL),
     (''AWS Lambda'', kb_AWS_Lambda),
     (''EC2'', kb_EC2),
     (''React'', kb_React),
     (''Vue'', kb_Vue),
     (''PostgreSQL'', kb_PostgreSQL),
     (''MongoDB'', kb_MongoDB)]"

text \<open>The fallback profile of an unknown technology.\<close>

definition guess_technology_category :: "string \<Rightarrow> string" where
  "guess_technology_category technology_name =
    (let name_lower = lower technology_name in
     if \<exists>keyword \<in> set [''db'', ''database'', ''sql'', ''mongo'', ''redis'', ''elastic''].
          sublist keyword name_lower then ''Database''
     else if \<exists>keyword \<in> set [''api'', ''rest'', ''graphql'', ''grpc'']. sublist keyword name_lower
       then ''API''
     else if \<exists>keyword \<in> set [''aws'', ''azure'', ''gcp'', ''cloud'', ''lambda'', ''function''].
          sublist keyword name_lower then ''Cloud Service''
     else if \<exists>keyword \<in> set [''react'', ''vue'', ''angular'', ''svelte'', ''frontend'', ''ui''].
          sublist keyword name_lower then ''Frontend Framework''
     else if \<exists>keyword \<in> set [''express'', ''django'', ''flask'', ''spring'', ''fastapi''].
          sublist keyword name_lower then ''Backend Framework''
     else ''Technology'')"

text \<open>
  Constructing the fallback TechnologyProfile validates a non-empty name; the other
  fields are non-empty by construction.
\<close>

definition create_fallback_profile :: "string \<Rightarrow> error + TechnologyProfile" where
  "create_fallback_profile technology_name =
    (let category = guess_technology_category technology_name;
         neutral_dimensions =
           map (\<lambda>d. (d, \<lparr>score = 3.0,
                          explanation = ''No specific '' @ d @ '' data available for '' @ technology_name\<rparr>))
             standard_dimensions
     in if technology_name = [] then Inl ValueError
        else Inr \<lparr>name = technology_name, category = category, dimensions = neutral_dimensions,
                  pros = [''Technology choice for '' @ lower category @ '' needs''],
                  cons = [''Limited analysis data available''],
                  best_for = [''Projects requiring '' @ lower category @ '' solutions''],
                  metadata = \<lparr>maturity = STABLE, license = ''Unknown'', maintainer = ''Unknown''\<rparr>\<rparr>)"

text \<open>
  \<open>get_technology_profile_with_fallback\<close>: the fallback profile is synthesized only when
  the lookup returns None. The suggestions computed before it are used in the error
  message alone and are not modelled.
\<close>

definition get_technology_profile_with_fallback ::
  "TechnologyProfile dict \<Rightarrow> string \<Rightarrow> error + (bool \<times> TechnologyProfile)" where
  "get_technology_profile_with_fallback kb technology_name =
    (case get_technology_profile kb technology_name of
       Some profile \<Rightarrow> Inr (False, profile)
     | None \<Rightarrow>
        (case create_fallback_profile technology_name of
           Inl e \<Rightarrow> Inl TechnologyNotFoundError
         | Inr fallback_profile \<Rightarrow> Inr (True, fallback_profile)))"

section \<open>Input parser (input_parser.py) and request model\<close>

record OutputPreferences =
  include_matrix :: bool
  include_recommendation :: bool
  max_technologies :: int

record ComparisonRequest =
  req_technologies :: "string list"
  project_requirements :: ProjectRequirements
  req_custom_dimensions :: "string list option"
  output_preferences :: OutputPreferences

text \<open>The parsed command line: argparse has already restricted the four levels to their choices.\<close>

record ParsedArgs =
  arg_technologies :: "string list"
  arg_team_size :: int
  arg_budget :: BudgetLevel
  arg_timeline :: TimelineLevel
  arg_scalability :: ScaleLevel
  arg_expertise :: ExpertiseLevel
  arg_custom_dimensions :: "string list option"
  arg_no_matrix :: bool
  arg_no_recommendation :: bool
  arg_max_technologies :: int

text \<open>\<open>ComparisonRequest.validate_custom_dimensions\<close> (models.py): an exact-match intersection.\<close>

definition validate_custom_dimensions :: "string list option \<Rightarrow> error + string list option" where
  "validate_custom_dimensions v =
    (case v of
       None \<Rightarrow> Inr None
     | Some cds \<Rightarrow>
         if set cds \<inter> set standard_dimensions \<noteq> {} then Inl ValueError else Inr (Some cds))"

text \<open>The checks of \<open>InputParser\<close>; each raises InputValidationError, told apart here by a reason.\<close>

definition parser_validate_technology_count :: "string list \<Rightarrow> error + unit" where
  "parser_validate_technology_count technologies =
    (if length technologies < 2 then Inl (InputValidationError ''technology count'')
     else if length technologies > 5 then Inl (InputValidationError ''technology count'')
     else if card (set (map (\<lambda>tech. strip (lower tech)) technologies)) \<noteq> length technologies
       then Inl (InputValidationError ''duplicate technologies'')
     else Inr ())"

definition parser_validate_team_size :: "int \<Rightarrow> error + unit" where
  "parser_validate_team_size n =
    (if n < 1 then Inl (InputValidationError ''team size'')
     else if n > 1000 then Inl (InputValidationError ''team size'')
     else Inr ())"

definition parser_validate_custom_dimensions :: "string list \<Rightarrow> error + unit" where
  "parser_validate_custom_dimensions cds =
    (let conflicts = filter (\<lambda>dimn. strip (lower dimn) \<in> set standard_dimensions) cds in
     if conflicts \<noteq> [] then Inl (InputValidationError ''custom dimensions conflict'')
     else if card (set (map (\<lambda>dm. strip (lower dm)) cds)) \<noteq> length cds
       then Inl (InputValidationError ''duplicate custom dimensions'')
     else if \<exists>dimn \<in> set cds. strip dimn = [] then Inl (InputValidationError ''blank custom dimension'')
     else Inr ())"

definition parser_validate_max_technologies :: "int \<Rightarrow> error + unit" where
  "parser_validate_max_technologies n =
    (if n < 2 then Inl (InputValidationError ''max technologies'')
     else if n > 5 then Inl (InputValidationError ''max technologies'')
     else Inr ())"

text \<open>
  Constructing the ComparisonRequest runs the model validators (technology count and
  uniqueness, custom dimensions); a failure there is reported as InputValidationError.
\<close>

definition make_ComparisonRequest ::
  "string list \<Rightarrow> ProjectRequirements \<Rightarrow> string list option \<Rightarrow> OutputPreferences
     \<Rightarrow> error + ComparisonRequest" where
  "make_ComparisonRequest technologies reqs custom prefs =
    (if length technologies < 2 \<or> length technologies > 5 then Inl ValueError
     else if length technologies \<noteq> card (set technologies) then Inl ValueError
     else if team_size reqs < 1 then Inl ValueError
     else if max_technologies prefs < 2 \<or> max_technologies prefs > 5 then Inl ValueError
     else (case validate_custom_dimensions custom of
             Inl e \<Rightarrow> Inl e
           | Inr v \<Rightarrow> Inr \<lparr>req_technologies = technologies, project_requirements = reqs,
                           req_custom_dimensions = v, output_preferences = prefs\<rparr>))"

definition convert_to_comparison_request :: "ParsedArgs \<Rightarrow> error + ComparisonRequest" where
  "convert_to_comparison_request args =
    (case parser_validate_technology_count (arg_technologies args) of
       Inl e \<Rightarrow> Inl e
     | Inr u \<Rightarrow>
    (case parser_validate_team_size (arg_team_size args) of
       Inl e \<Rightarrow> Inl e
     | Inr u \<Rightarrow>
    (case (case arg_custom_dimensions args of
             None \<Rightarrow> Inr ()
           | Some cds \<Rightarrow> if cds = [] then Inr () else parser_validate_custom_dimensions cds) of
       Inl e \<Rightarrow> Inl e
     | Inr u \<Rightarrow>
    (case parser_validate_max_technologies (arg_max_technologies args) of
       Inl e \<Rightarrow> Inl e
     | Inr u \<Rightarrow>
    (case make_ComparisonRequest (arg_technologies args)
            \<lparr>team_size = arg_team_size args, budget = arg_budget args,
              timeline = arg_timeline args, scalability_needs = arg_scalability args,
              expertise_level = arg_expertise args\<rparr>
            (case arg_custom_dimensions args of
               None \<Rightarrow> None | Some cds \<Rightarrow> if cds = [] then None else Some cds)
            \<lparr>include_matrix = \<not> arg_no_matrix args,
              include_recommendation = \<not> arg_no_recommendation args,
              max_technologies = arg_max_technologies args\<rparr> of
       Inl e \<Rightarrow> Inl (InputValidationError ''request creation'')
     | Inr req \<Rightarrow> Inr req)))))"

section \<open>The rules of the specification, as definitions\<close>

text \<open>
  The scoring rule in the words of the specification: every dimension of positive weight
  contributes its clamped score times its weight and uses its weight, or, when the
  technology lacks the dimension, contributes a neutral 0.5 at half weight and uses half
  its weight; the score is the total contribution over the weight used, clamped, and 0.5
  when no weight was used.
\<close>

definition spec_contribution :: "TechnologyProfile \<Rightarrow> string \<times> real \<Rightarrow> real" where
  "spec_contribution tech dw =
    (case map_of (dimensions tech) (fst dw) of
       Some ds \<Rightarrow> clamp01 (score ds / 5) * snd dw
     | None \<Rightarrow> 0.5 * snd dw * 0.5)"

definition spec_weight_used :: "TechnologyProfile \<Rightarrow> string \<times> real \<Rightarrow> real" where
  "spec_weight_used tech dw =
    (case map_of (dimensions tech) (fst dw) of Some ds \<Rightarrow> snd dw | None \<Rightarrow> snd dw * 0.5)"

definition spec_T :: "TechnologyProfile \<Rightarrow> WeightedCriteria \<Rightarrow> real" where
  "spec_T tech wc =
     sum_list (map (spec_contribution tech) (filter (\<lambda>dw. snd dw > 0) (dimension_weights wc)))"

definition spec_W :: "TechnologyProfile \<Rightarrow> WeightedCriteria \<Rightarrow> real" where
  "spec_W tech wc =
     sum_list (map (spec_weight_used tech) (filter (\<lambda>dw. snd dw > 0) (dimension_weights wc)))"

definition spec_compatibility :: "TechnologyProfile \<Rightarrow> WeightedCriteria \<Rightarrow> real" where
  "spec_compatibility tech wc =
     (if spec_W tech wc = 0 then 0.5 else clamp01 (spec_T tech wc / spec_W tech wc))"

text \<open>
  The highlight rule in the words of the specification. The leader of a column of scores is
  the technology with the maximum score, provided that score exceeds the second-highest
  score, the maximum of the other technologies' scores, by at least 0.5.
\<close>

definition spec_leader :: "real list \<Rightarrow> nat option" where
  "spec_leader col =
    (let i = index_of (Max (set col)) col;
         others = take i col @ drop (Suc i) col
     in if others \<noteq> [] \<and> col ! i - Max (set others) \<ge> 0.5 then Some i else None)"

definition spec_highlight ::
  "(real \<Rightarrow> string) \<Rightarrow> TechnologyProfile list \<Rightarrow> real list list \<Rightarrow> nat \<Rightarrow> string
     \<Rightarrow> TradeoffHighlight option" where
  "spec_highlight fmt technologies scs j d =
    (let col = map (\<lambda>row. row ! j) scs in
     case spec_leader col of
       None \<Rightarrow> None
     | Some i \<Rightarrow>
         Some \<lparr>dimension = d, leader = name (technologies ! i),
               hl_explanation =
                 (case map_of (dimensions (technologies ! i)) d of
                    Some ds \<Rightarrow> explanation ds
                  | None \<Rightarrow> ''Leads in '' @ d @ '' with score of '' @ fmt (col ! i))\<rparr>)"

definition spec_highlights ::
  "(real \<Rightarrow> string) \<Rightarrow> TechnologyProfile list \<Rightarrow> string list \<Rightarrow> real list list
     \<Rightarrow> TradeoffHighlight list" where
  "spec_highlights fmt technologies dims scs =
     concat (map (\<lambda>(j, d). case spec_highlight fmt technologies scs j d of
                              None \<Rightarrow> [] | Some h \<Rightarrow> [h]) (enumerate 0 dims))"

text \<open>The output contract of the weight calculator, as a predicate on the weights.\<close>

definition weights_invariant :: "real dict \<Rightarrow> bool" where
  "weights_invariant ws \<longleftrightarrow>
     map fst ws = standard_dimensions
     \<and> 0.95 \<le> sum_list (dict_values ws) \<and> sum_list (dict_values ws) \<le> 1.05
     \<and> list_all (\<lambda>w. 0.05 \<le> w \<and> w \<le> 0.6) (dict_values ws)"

section \<open>Evaluation of the weight calculation: auxiliary definitions\<close>

text \<open>
  Devices for evaluating the weight calculation: the five weights in dict order, the boosted
  and clamped weights, the names of the top highlighted dimensions, and the
  priority-guarantee pass over them.
\<close>

definition weights5 :: "real \<Rightarrow> real \<Rightarrow> real \<Rightarrow> real \<Rightarrow> real \<Rightarrow> real dict" where
  "weights5 a b c d e =
     [(''cost'', a), (''scalability'', b), (''complexity'', c), (''ecosystem'', d), (''performance'', e)]"

definition top_dims_of :: "real dict \<Rightarrow> string list" where
  "top_dims_of boosts =
    (let hl = sorted_reverse snd (filter (\<lambda>(dm, boost). boost > 0.02) boosts)
     in map fst (take (min 3 (length hl)) hl))"

definition force_all :: "string list \<Rightarrow> real dict \<Rightarrow> real dict" where
  "force_all tops nw = foldl (\<lambda>nw dimn. force_above_baseline tops dimn nw) nw tops"

definition weights_of_boosts :: "real dict \<Rightarrow> real dict" where
  "weights_of_boosts bs =
     weights5 (max 0.05 (0.2 + dict_item bs ''cost''))
              (max 0.05 (0.2 + dict_item bs ''scalability''))
              (max 0.05 (0.2 + dict_item bs ''complexity''))
              (max 0.05 (0.2 + dict_item bs ''ecosystem''))
              (max 0.05 (0.2 + dict_item bs ''performance''))"

definition weights_ok :: "ProjectRequirements \<Rightarrow> bool" where
  "weights_ok r \<longleftrightarrow> detect_requirement_conflicts r \<noteq> []
      \<or> validate_weights (calculate_dimension_weights r) = Inr ()"

section \<open>Example inputs\<close>

text \<open>
  EC2 and AWS Lambda of the knowledge base, in this order, under equal weights: their
  compatibility scores are 0.74 and 0.8.
\<close>

definition example_criteria :: WeightedCriteria where
  "example_criteria =
    \<lparr>dimension_weights = [(''cost'', 0.2), (''scalability'', 0.2), (''complexity'', 0.2),
                           (''ecosystem'', 0.2), (''performance'', 0.2)],
     priority_factors = [''Balanced cost considerations'']\<rparr>"

definition example_scores :: "CompatibilityScore list" where
  "example_scores = [\<lparr>technology = ''EC2'', compat_score = 0.74\<rparr>,
                     \<lparr>technology = ''AWS Lambda'', compat_score = 0.8\<rparr>]"

definition example_recommendation :: Recommendation where
  "example_recommendation =
    \<lparr>ranked_choices =
       [\<lparr>rc_technology = ''AWS Lambda'', rc_score = 0.8, confidence = HIGH\<rparr>,
        \<lparr>rc_technology = ''EC2'', rc_score = 0.74, confidence = MEDIUM\<rparr>],
     alternative_scenarios = Some
       [\<lparr>scenario = ''If budget becomes the primary constraint'',
         recommended_tech = ''EC2'',
         as_explanation = ''This option offers the best cost-effectiveness for the project requirements''\<rparr>,
        \<lparr>scenario = ''If scalability becomes the top priority'',
         recommended_tech = ''AWS Lambda'',
         as_explanation = ''This option provides the strongest scalability capabilities''\<rparr>]\<rparr>"

text \<open>The default requirements at a given team size, and the conflicting requirements of the scenario.\<close>

definition default_requirements :: "int \<Rightarrow> ProjectRequirements" where
  "default_requirements n =
     \<lparr>team_size = n, budget = Budget_MEDIUM, timeline = MODERATE,
      scalability_needs = Scale_MEDIUM, expertise_level = INTERMEDIATE\<rparr>"

definition conflicting_requirements :: ProjectRequirements where
  "conflicting_requirements =
     \<lparr>team_size = 3, budget = Budget_LOW, timeline = TIGHT,
      scalability_needs = LARGE, expertise_level = INTERMEDIATE\<rparr>"

text \<open>The command line \<open>-t EC2 "AWS Lambda" --custom-dimensions Cost\<close> with the defaults.\<close>

definition example_args :: ParsedArgs where
  "example_args =
    \<lparr>arg_technologies = [''EC2'', ''AWS Lambda''], arg_team_size = 3,
     arg_budget = Budget_MEDIUM, arg_timeline = MODERATE, arg_scalability = Scale_MEDIUM,
     arg_expertise = INTERMEDIATE, arg_custom_dimensions = Some [''Cost''],
     arg_no_matrix = False, arg_no_recommendation = False, arg_max_technologies = 5\<rparr>"

section \<open>Ranking and confidence\<close>

lemma ranked_choices_loop_nth:
  "ranked_choices_loop lookup ss (enumerate k xs) = Inr rcs \<Longrightarrow>
     length rcs = length xs \<and>
     (\<forall>i < length xs. rcs ! i = \<lparr>rc_technology = technology (xs ! i), rc_score = compat_score (xs ! i),
                                   confidence = calculate_confidence (xs ! i) ss (k + i)\<rparr>)"
proof (induction xs arbitrary: k rcs)
  case Nil
  then show ?case by simp
next
  case (Cons x xs)
  from Cons.prems obtain tech rc rest where
    rc: "make_RankedChoice (technology x) (compat_score x) (calculate_confidence x ss k) = Inr rc"
    and rest: "ranked_choices_loop lookup ss (enumerate (Suc k) xs) = Inr rest"
    and rcs: "rcs = rc # rest"
    by (auto split: option.splits sum.splits)
  from rc have rc_eq: "rc = \<lparr>rc_technology = technology x, rc_score = compat_score x,
                             confidence = calculate_confidence x ss k\<rparr>"
    by (auto simp: make_RankedChoice_def split: if_splits)
  from Cons.IH[OF rest] have len: "length rest = length xs"
    and nth: "\<And>i. i < length xs \<Longrightarrow> rest ! i = \<lparr>rc_technology = technology (xs ! i),
        rc_score = compat_score (xs ! i), confidence = calculate_confidence (xs ! i) ss (Suc k + i)\<rparr>"
    by auto
  show ?case
  proof (intro conjI allI impI)
    show "length rcs = length (x # xs)" using len rcs by simp
  next
    fix i assume "i < length (x # xs)"
    then show "rcs ! i = \<lparr>rc_technology = technology ((x # xs) ! i),
        rc_score = compat_score ((x # xs) ! i),
        confidence = calculate_confidence ((x # xs) ! i) ss (k + i)\<rparr>"
      using rcs rc_eq nth by (cases i) auto
  qed
qed

lemma create_ranked_choices_nth:
  assumes "create_ranked_choices technologies css = Inr rcs"
  shows "length rcs = length css"
    and "map rc_score rcs = map compat_score (sorted_reverse compat_score css)"
    and "map rc_technology rcs = map technology (sorted_reverse compat_score css)"
    and "\<And>i. i < length rcs \<Longrightarrow>
           confidence (rcs ! i) =
             calculate_confidence (sorted_reverse compat_score css ! i) (sorted_reverse compat_score css) i"
proof -
  let ?ss = "sorted_reverse compat_score css"
  from assms have "ranked_choices_loop (tech_lookup technologies) ?ss (enumerate 0 ?ss) = Inr rcs"
    by (simp add: create_ranked_choices_def Let_def)
  from ranked_choices_loop_nth[OF this]
  have len: "length rcs = length ?ss"
    and nth: "\<And>i. i < length ?ss \<Longrightarrow> rcs ! i = \<lparr>rc_technology = technology (?ss ! i),
        rc_score = compat_score (?ss ! i), confidence = calculate_confidence (?ss ! i) ?ss i\<rparr>"
    by auto
  show "length rcs = length css" using len by (simp add: sorted_reverse_def)
  show "map rc_score rcs = map compat_score ?ss"
    using len nth by (intro nth_equalityI) auto
  show "map rc_technology rcs = map technology ?ss"
    using len nth by (intro nth_equalityI) auto
  show "\<And>i. i < length rcs \<Longrightarrow> confidence (rcs ! i) = calculate_confidence (?ss ! i) ?ss i"
    using len nth by simp
qed

lemma generate_recommendation_ranked:
  assumes "generate_recommendation technologies css wc = Inr rec"
  shows "create_ranked_choices technologies css = Inr (ranked_choices rec)"
    and "distinct (map rc_technology (ranked_choices rec))"
    and "ranked_choices rec \<noteq> []"
    and "css \<noteq> []"
proof -
  from assms obtain rcs alts where
    c: "create_ranked_choices technologies css = Inr rcs"
    and m: "make_Recommendation rcs alts = Inr rec"
    and ne: "technologies \<noteq> []" "length css = length technologies"
    by (auto simp: generate_recommendation_def split: if_splits sum.splits)
  from m have r: "ranked_choices rec = rcs"
    and d: "length (map rc_technology rcs) = card (set (map rc_technology rcs))" and n: "rcs \<noteq> []"
    by (auto simp: make_Recommendation_def split: if_splits)
  show "create_ranked_choices technologies css = Inr (ranked_choices rec)" using c r by simp
  show "distinct (map rc_technology (ranked_choices rec))"
    using d r by (metis card_distinct)
  show "ranked_choices rec \<noteq> []" using n r by simp
  show "css \<noteq> []" using ne by auto
qed

lemma sorted_reverse_sorted: "sorted_wrt (\<lambda>a b. a \<ge> b) (map f (sorted_reverse f xs))"
proof -
  have "sorted (map (\<lambda>x. - f x) (sort_key (\<lambda>x. - f x) xs))" by (rule sorted_sort_key)
  then have "sorted_wrt (\<le>) (map uminus (map f (sorted_reverse f xs)))"
    by (simp add: sorted_reverse_def comp_def)
  then show ?thesis
    by (simp add: sorted_wrt_map)
qed

lemma sorted_reverse_stable:
  "filter (\<lambda>x. f x = k) (sorted_reverse f xs) = filter (\<lambda>x. f x = k) xs"
proof -
  have "filter (\<lambda>x. - f x = - k) (sort_key (\<lambda>x. - f x) xs) = filter (\<lambda>x. - f x = - k) xs"
    by (rule sort_key_stable)
  then show ?thesis by (simp add: sorted_reverse_def)
qed

lemma mset_sorted_reverse: "mset (sorted_reverse f xs) = mset xs"
  by (simp add: sorted_reverse_def)

lemma calculate_confidence_top:
  "1 < length ss \<Longrightarrow> calculate_confidence c ss 0 =
     (let s = compat_score c; second_score = compat_score (ss ! 1) in
      if second_score > 0 then
        (let gap = (s - second_score) / second_score in
         if gap \<le> 0.02 then LOW
         else if gap \<le> 0.05 then (if s \<ge> 0.85 then MEDIUM else LOW)
         else if gap \<le> 0.15 then (if s \<ge> 0.8 then HIGH else if s \<ge> 0.6 then MEDIUM else LOW)
         else (if s \<ge> 0.7 then HIGH else if s \<ge> 0.5 then MEDIUM else LOW))
      else absolute_confidence s)"
  by (simp add: calculate_confidence_def absolute_confidence_def Let_def)

lemma calculate_confidence_other:
  "rank \<noteq> 0 \<or> length ss \<le> 1 \<Longrightarrow> calculate_confidence c ss rank = absolute_confidence (compat_score c)"
  by (auto simp: calculate_confidence_def absolute_confidence_def Let_def)

text \<open>
  Claim C4. In a recommendation over at least two technologies the confidence of the
  top-ranked choice follows the percentage gap (top - runner-up) / runner-up when the
  runner-up score is positive: a gap of at most 2% gives LOW; at most 5% gives MEDIUM when the
  top score is at least 0.85 and LOW otherwise; at most 15% gives HIGH from 0.8, MEDIUM from
  0.6, else LOW; a larger gap gives HIGH from 0.7, MEDIUM from 0.5, else LOW. With a runner-up
  score that is not positive, for every entry that is not top-ranked, and for a single
  technology, the absolute thresholds apply (HIGH from 0.8, MEDIUM from 0.6, else LOW).
\<close>

theorem C4_confidence_levels:
  assumes "generate_recommendation technologies css wc = Inr rec"
  shows "(2 \<le> length (ranked_choices rec) \<longrightarrow>
          (let top = rc_score (ranked_choices rec ! 0);
               runner_up = rc_score (ranked_choices rec ! 1);
               gap = (top - runner_up) / runner_up
           in confidence (ranked_choices rec ! 0) =
               (if runner_up > 0 then
                  (if gap \<le> 0.02 then LOW
                   else if gap \<le> 0.05 then (if top \<ge> 0.85 then MEDIUM else LOW)
                   else if gap \<le> 0.15 then
                     (if top \<ge> 0.8 then HIGH else if top \<ge> 0.6 then MEDIUM else LOW)
                   else (if top \<ge> 0.7 then HIGH else if top \<ge> 0.5 then MEDIUM else LOW))
                else (if top \<ge> 0.8 then HIGH else if top \<ge> 0.6 then MEDIUM else LOW))))
    \<and> (\<forall>i < length (ranked_choices rec). i \<noteq> 0 \<or> length (ranked_choices rec) = 1 \<longrightarrow>
          confidence (ranked_choices rec ! i) =
            (if rc_score (ranked_choices rec ! i) \<ge> 0.8 then HIGH
             else if rc_score (ranked_choices rec ! i) \<ge> 0.6 then MEDIUM else LOW))"
proof -
  let ?rcs = "ranked_choices rec"
  let ?ss = "sorted_reverse compat_score css"
  note c = generate_recommendation_ranked(1)[OF assms]
  note len = create_ranked_choices_nth(1)[OF c]
  note sc = create_ranked_choices_nth(2)[OF c]
  note conf = create_ranked_choices_nth(4)[OF c]
  have lss: "length ?ss = length ?rcs" using len by (simp add: sorted_reverse_def)
  have sc_nth: "\<And>i. i < length ?rcs \<Longrightarrow> rc_score (?rcs ! i) = compat_score (?ss ! i)"
  proof -
    fix i assume i: "i < length ?rcs"
    then have "map rc_score ?rcs ! i = map compat_score ?ss ! i" using sc by simp
    then show "rc_score (?rcs ! i) = compat_score (?ss ! i)" using i lss by simp
  qed
  have top: "2 \<le> length ?rcs \<longrightarrow>
          (let top = rc_score (?rcs ! 0); runner_up = rc_score (?rcs ! 1);
               gap = (top - runner_up) / runner_up
           in confidence (?rcs ! 0) =
               (if runner_up > 0 then
                  (if gap \<le> 0.02 then LOW
                   else if gap \<le> 0.05 then (if top \<ge> 0.85 then MEDIUM else LOW)
                   else if gap \<le> 0.15 then
                     (if top \<ge> 0.8 then HIGH else if top \<ge> 0.6 then MEDIUM else LOW)
                   else (if top \<ge> 0.7 then HIGH else if top \<ge> 0.5 then MEDIUM else LOW))
                else (if top \<ge> 0.8 then HIGH else if top \<ge> 0.6 then MEDIUM else LOW)))"
  proof
    assume two: "2 \<le> length ?rcs"
    then have z: "0 < length ?rcs" by linarith
    have "confidence (?rcs ! 0) = calculate_confidence (?ss ! 0) ?ss 0"
      by (rule conf[OF z])
    moreover have o: "1 < length ?rcs" using two by linarith
    moreover have "1 < length ?ss" using o lss by simp
    moreover have "rc_score (?rcs ! 0) = compat_score (?ss ! 0)"
      "rc_score (?rcs ! 1) = compat_score (?ss ! 1)" by (rule sc_nth[OF z], rule sc_nth[OF o])
    ultimately show "(let top = rc_score (?rcs ! 0); runner_up = rc_score (?rcs ! 1);
               gap = (top - runner_up) / runner_up
           in confidence (?rcs ! 0) =
               (if runner_up > 0 then
                  (if gap \<le> 0.02 then LOW
                   else if gap \<le> 0.05 then (if top \<ge> 0.85 then MEDIUM else LOW)
                   else if gap \<le> 0.15 then
                     (if top \<ge> 0.8 then HIGH else if top \<ge> 0.6 then MEDIUM else LOW)
                   else (if top \<ge> 0.7 then HIGH else if top \<ge> 0.5 then MEDIUM else LOW))
                else (if top \<ge> 0.8 then HIGH else if top \<ge> 0.6 then MEDIUM else LOW)))"
      by (simp add: calculate_confidence_top absolute_confidence_def Let_def)
  qed
  have others: "\<forall>i < length ?rcs. i \<noteq> 0 \<or> length ?rcs = 1 \<longrightarrow>
          confidence (?rcs ! i) =
            (if rc_score (?rcs ! i) \<ge> 0.8 then HIGH
             else if rc_score (?rcs ! i) \<ge> 0.6 then MEDIUM else LOW)"
  proof (intro allI impI)
    fix i assume i: "i < length ?rcs" and o: "i \<noteq> 0 \<or> length ?rcs = 1"
    have "confidence (?rcs ! i) = calculate_confidence (?ss ! i) ?ss i" using conf[OF i] .
    also have "\<dots> = absolute_confidence (compat_score (?ss ! i))"
      using o lss by (intro calculate_confidence_other) auto
    finally show "confidence (?rcs ! i) =
            (if rc_score (?rcs ! i) \<ge> 0.8 then HIGH
             else if rc_score (?rcs ! i) \<ge> 0.6 then MEDIUM else LOW)"
      using sc_nth[OF i] by (simp add: absolute_confidence_def)
  qed
  from top others show ?thesis by (rule conjI)
qed

text \<open>
  Claim C5. The ranked choices of a recommendation are in non-increasing score order, they
  are the compatibility scores rearranged, choices of equal score keep the order they had in
  the list of compatibility scores, and no technology occurs twice in the ranking.
\<close>

theorem C5_ranking_sorted_stable_unique:
  assumes "generate_recommendation technologies css wc = Inr rec"
  shows "sorted_wrt (\<lambda>a b. a \<ge> b) (map rc_score (ranked_choices rec))
    \<and> mset (map (\<lambda>c. (rc_technology c, rc_score c)) (ranked_choices rec))
           = mset (map (\<lambda>c. (technology c, compat_score c)) css)
    \<and> (\<forall>s. map rc_technology (filter (\<lambda>c. rc_score c = s) (ranked_choices rec))
           = map technology (filter (\<lambda>c. compat_score c = s) css))
    \<and> distinct (map rc_technology (ranked_choices rec))"
proof -
  let ?rcs = "ranked_choices rec"
  let ?ss = "sorted_reverse compat_score css"
  note c = generate_recommendation_ranked(1)[OF assms]
  note sc = create_ranked_choices_nth(2)[OF c]
  note tn = create_ranked_choices_nth(3)[OF c]
  have pairs: "map (\<lambda>c. (rc_technology c, rc_score c)) ?rcs = map (\<lambda>c. (technology c, compat_score c)) ?ss"
  proof (rule nth_equalityI)
    show l: "length (map (\<lambda>c. (rc_technology c, rc_score c)) ?rcs)
          = length (map (\<lambda>c. (technology c, compat_score c)) ?ss)"
      using arg_cong[OF sc, of length] by simp
    fix i assume "i < length (map (\<lambda>c. (rc_technology c, rc_score c)) ?rcs)"
    then have i: "i < length ?rcs" "i < length ?ss" using l by simp_all
    have "map rc_score ?rcs ! i = map compat_score ?ss ! i" using sc by simp
    moreover have "map rc_technology ?rcs ! i = map technology ?ss ! i" using tn by simp
    ultimately show "map (\<lambda>c. (rc_technology c, rc_score c)) ?rcs ! i
        = map (\<lambda>c. (technology c, compat_score c)) ?ss ! i"
      using i by simp
  qed
  have A: "sorted_wrt (\<lambda>a b. a \<ge> b) (map rc_score ?rcs)"
    using sorted_reverse_sorted[of compat_score css] sc by simp
  have B: "mset (map (\<lambda>c. (rc_technology c, rc_score c)) ?rcs)
           = mset (map (\<lambda>c. (technology c, compat_score c)) css)"
    by (simp only: pairs mset_map mset_sorted_reverse)
  have C: "\<forall>s. map rc_technology (filter (\<lambda>c. rc_score c = s) ?rcs)
           = map technology (filter (\<lambda>c. compat_score c = s) css)"
  proof
    fix s
    have "map fst (filter (\<lambda>p. snd p = s) (map (\<lambda>c. (rc_technology c, rc_score c)) ?rcs))
        = map fst (filter (\<lambda>p. snd p = s) (map (\<lambda>c. (technology c, compat_score c)) ?ss))"
      by (simp only: pairs)
    then have "map rc_technology (filter (\<lambda>c. rc_score c = s) ?rcs)
        = map technology (filter (\<lambda>c. compat_score c = s) ?ss)"
      by (simp add: filter_map comp_def)
    then show "map rc_technology (filter (\<lambda>c. rc_score c = s) ?rcs)
        = map technology (filter (\<lambda>c. compat_score c = s) css)"
      by (simp add: sorted_reverse_stable)
  qed
  have D: "distinct (map rc_technology ?rcs)"
    by (rule generate_recommendation_ranked(2)[OF assms])
  from A B C D show ?thesis by blast
qed

lemma example_compatibility:
  "calculate_compatibility kb_EC2 example_criteria = Inr (example_scores ! 0)"
  "calculate_compatibility kb_AWS_Lambda example_criteria = Inr (example_scores ! 1)"
  by (simp_all add: calculate_compatibility_def example_criteria_def example_scores_def
      kb_EC2_def kb_AWS_Lambda_def make_CompatibilityScore_def)

lemma example_ranked:
  "create_ranked_choices [kb_EC2, kb_AWS_Lambda] example_scores = Inr (ranked_choices example_recommendation)"
  by (simp add: create_ranked_choices_def sorted_reverse_def example_scores_def tech_lookup_def
      kb_EC2_def kb_AWS_Lambda_def make_RankedChoice_def calculate_confidence_def
      example_recommendation_def)

lemma example_alternatives:
  "generate_alternative_scenarios [kb_EC2, kb_AWS_Lambda] example_scores
     = Inr (alternative_scenarios example_recommendation)"
  by (simp add: generate_alternative_scenarios_def example_scores_def tech_lookup_def
      kb_EC2_def kb_AWS_Lambda_def truthy_def example_recommendation_def)

lemma example_generate_recommendation:
  "generate_recommendation [kb_EC2, kb_AWS_Lambda] example_scores example_criteria
     = Inr example_recommendation"
proof -
  have l: "length example_scores = 2" by (simp add: example_scores_def)
  have m: "make_Recommendation (ranked_choices example_recommendation)
             (alternative_scenarios example_recommendation) = Inr example_recommendation"
    by (simp add: make_Recommendation_def example_recommendation_def sorted_reverse_def)
  show ?thesis
    by (simp add: generate_recommendation_def example_ranked example_alternatives l m)
qed

text \<open>Claim C4 at the example: Lambda leads EC2 by 8.1% with score 0.8, EC2 is ranked second.\<close>

theorem C4_confidence_levels_witness:
  "generate_recommendation [kb_EC2, kb_AWS_Lambda] example_scores example_criteria
     = Inr example_recommendation
   \<and> confidence (ranked_choices example_recommendation ! 0) = HIGH
   \<and> confidence (ranked_choices example_recommendation ! 1) = MEDIUM"
  using C4_confidence_levels[OF example_generate_recommendation] example_generate_recommendation
  by (simp add: example_recommendation_def)

text \<open>Claim C5 at the example.\<close>

theorem C5_ranking_sorted_stable_unique_witness:
  "generate_recommendation [kb_EC2, kb_AWS_Lambda] example_scores example_criteria
     = Inr example_recommendation
   \<and> sorted_wrt (\<lambda>a b. a \<ge> b) (map rc_score (ranked_choices example_recommendation))
   \<and> distinct (map rc_technology (ranked_choices example_recommendation))"
  using C5_ranking_sorted_stable_unique[OF example_generate_recommendation]
    example_generate_recommendation
  by blast

section \<open>Compatibility score and input validation of the comparison\<close>

lemma compatibility_loop_sums:
  "compatibility_loop tdims ws (a, b) =
     (a + sum_list (map (spec_contribution \<lparr>name = n, category = c, dimensions = tdims, pros = p,
                           cons = cs, best_for = bf, metadata = m\<rparr>) (filter (\<lambda>dw. snd dw > 0) ws)),
      b + sum_list (map (spec_weight_used \<lparr>name = n, category = c, dimensions = tdims, pros = p,
                           cons = cs, best_for = bf, metadata = m\<rparr>) (filter (\<lambda>dw. snd dw > 0) ws)))"
proof (induction ws arbitrary: a b)
  case Nil
  then show ?case by simp
next
  case (Cons dw ws)
  obtain d w where dw: "dw = (d, w)" by (cases dw)
  show ?case
    by (cases "map_of tdims d")
       (simp_all add: dw Cons.IH spec_contribution_def spec_weight_used_def clamp01_def Let_def)
qed

lemma compatibility_loop_spec:
  "compatibility_loop (dimensions tech) (dimension_weights wc) (0, 0) = (spec_T tech wc, spec_W tech wc)"
proof -
  have "compatibility_loop (dimensions tech) (dimension_weights wc) (0, 0) =
     (0 + sum_list (map (spec_contribution tech) (filter (\<lambda>dw. snd dw > 0) (dimension_weights wc))),
      0 + sum_list (map (spec_weight_used tech) (filter (\<lambda>dw. snd dw > 0) (dimension_weights wc))))"
    using compatibility_loop_sums[of "dimensions tech" "dimension_weights wc" 0 0 "name tech"
        "category tech" "pros tech" "cons tech" "best_for tech" "metadata tech"]
    by (cases tech) simp
  then show ?thesis by (simp add: spec_T_def spec_W_def)
qed

lemma spec_W_nonneg: "0 \<le> spec_W tech wc"
proof -
  have "\<And>x. x \<in> set (filter (\<lambda>dw. snd dw > 0) (dimension_weights wc)) \<Longrightarrow> 0 \<le> spec_weight_used tech x"
    by (auto simp: spec_weight_used_def split: option.splits)
  then show ?thesis
    unfolding spec_W_def by (intro sum_list_nonneg) auto
qed

lemma clamp01_range: "0 \<le> clamp01 x \<and> clamp01 x \<le> 1"
  by (simp add: clamp01_def)

lemma spec_compatibility_range: "0 \<le> spec_compatibility tech wc \<and> spec_compatibility tech wc \<le> 1"
  using clamp01_range by (simp add: spec_compatibility_def)

text \<open>
  Claim C3. For a technology profile and criteria with non-empty weights,
  calculate_compatibility returns the score of the specification: the total contribution T
  over the weight used W, clamped to [0, 1], where a dimension of positive weight w
  contributes clamp(s / 5) * w and uses w when the profile scores it s, and contributes
  0.5 * w * 0.5 and uses w * 0.5 when the profile lacks it; 0.5 when W is 0. The score is in
  [0, 1] also for a profile without any dimension.
\<close>

theorem C3_compatibility_formula:
  assumes "name tech \<noteq> []" and "dimension_weights wc \<noteq> []"
  shows "calculate_compatibility tech wc
           = Inr \<lparr>technology = name tech, compat_score = spec_compatibility tech wc\<rparr>
         \<and> 0 \<le> spec_compatibility tech wc \<and> spec_compatibility tech wc \<le> 1"
proof -
  let ?final = "if spec_W tech wc > 0 then spec_T tech wc / spec_W tech wc else 0.5"
  have eq: "max 0 (min 1 ?final) = spec_compatibility tech wc"
    using spec_W_nonneg[of tech wc]
    by (auto simp: spec_compatibility_def clamp01_def)
  have r: "0 \<le> spec_compatibility tech wc \<and> spec_compatibility tech wc \<le> 1"
    by (rule spec_compatibility_range)
  have "calculate_compatibility tech wc
          = Inr \<lparr>technology = name tech, compat_score = spec_compatibility tech wc\<rparr>"
    using assms r
    by (simp add: calculate_compatibility_def compatibility_loop_spec eq
        make_CompatibilityScore_def del: max.absorb1 max.absorb2 max.absorb3 max.absorb4 min.absorb1 min.absorb2 min.absorb3 min.absorb4)
  with r show ?thesis by simp
qed

theorem C3_compatibility_formula_witness:
  "name kb_EC2 \<noteq> [] \<and> dimension_weights example_criteria \<noteq> []
   \<and> calculate_compatibility kb_EC2 example_criteria
       = Inr \<lparr>technology = ''EC2'', compat_score = spec_compatibility kb_EC2 example_criteria\<rparr>
   \<and> calculate_compatibility \<lparr>name = ''Foo'', category = ''Technology'', dimensions = [],
         pros = [''p''], cons = [''c''], best_for = [''b''],
         metadata = \<lparr>maturity = STABLE, license = ''Unknown'', maintainer = ''Unknown''\<rparr>\<rparr>
         example_criteria
       = Inr \<lparr>technology = ''Foo'', compat_score = 0.5\<rparr>"
proof -
  let ?foo = "\<lparr>name = ''Foo'', category = ''Technology'', dimensions = [],
         pros = [''p''], cons = [''c''], best_for = [''b''],
         metadata = \<lparr>maturity = STABLE, license = ''Unknown'', maintainer = ''Unknown''\<rparr>\<rparr>"
  have n: "name kb_EC2 \<noteq> []" by (simp add: kb_EC2_def)
  have w: "dimension_weights example_criteria \<noteq> []" by (simp add: example_criteria_def)
  have nf: "name ?foo \<noteq> []" by simp
  have sf: "spec_compatibility ?foo example_criteria = 0.5"
    by (simp add: spec_compatibility_def spec_W_def spec_T_def spec_contribution_def
        spec_weight_used_def example_criteria_def clamp01_def)
  show ?thesis
    using C3_compatibility_formula[OF n w] C3_compatibility_formula[OF nf w] n w sf
    by (simp add: kb_EC2_def)
qed

lemma valid_profile_dimension_count:
  assumes "valid_TechnologyProfile t"
  shows "5 \<le> length (dimensions t)"
proof -
  from assms have d: "distinct (map fst (dimensions t))"
    and s: "set standard_dimensions \<subseteq> set (map fst (dimensions t))"
    by (simp_all add: valid_TechnologyProfile_def)
  have "card (set standard_dimensions) = 5"
    by (simp add: standard_dimensions_def)
  moreover have "card (set standard_dimensions) \<le> card (set (map fst (dimensions t)))"
    using s by (intro card_mono) auto
  moreover have "card (set (map fst (dimensions t))) = length (map fst (dimensions t))"
    using d by (rule distinct_card)
  ultimately show ?thesis by simp
qed

lemma validate_comparison_inputs_ok:
  assumes "2 \<le> length technologies" "length technologies \<le> 5"
    and "\<forall>t \<in> set technologies. valid_TechnologyProfile t"
    and "dimension_weights wc \<noteq> []"
  shows "validate_comparison_inputs technologies wc custom = Inr ()"
proof -
  have "filter (\<lambda>tech. dimensions tech = [] \<or> length (dimensions tech) < 3) technologies = []"
  proof -
    have "\<And>t. t \<in> set technologies \<Longrightarrow> \<not> (dimensions t = [] \<or> length (dimensions t) < 3)"
      using assms(3) valid_profile_dimension_count by fastforce
    then show ?thesis by (simp add: filter_empty_conv)
  qed
  moreover have "technologies \<noteq> []" using assms(1) by auto
  ultimately show ?thesis
    using assms by (simp add: validate_comparison_inputs_def)
qed

text \<open>
  Claim C9. For 2 to 5 technology profiles that satisfy the profile invariant (all five
  standard dimensions present) and criteria with non-empty weights, generate_comparison does
  not raise InsufficientDataError, whatever the custom dimensions: the input validation
  passes, and any later failure is a ComparisonError.
\<close>

theorem C9_no_insufficient_data:
  assumes "2 \<le> length technologies" and "length technologies \<le> 5"
    and "\<forall>t \<in> set technologies. valid_TechnologyProfile t"
    and "dimension_weights wc \<noteq> []"
  shows "validate_comparison_inputs technologies wc custom = Inr ()
         \<and> generate_comparison fmt technologies wc custom \<noteq> Inl InsufficientDataError"
proof -
  have v: "validate_comparison_inputs technologies wc custom = Inr ()"
    using assms by (rule validate_comparison_inputs_ok)
  then have "generate_comparison fmt technologies wc custom \<noteq> Inl InsufficientDataError"
    by (simp add: generate_comparison_def split: sum.splits)
  with v show ?thesis by simp
qed

lemma kb_valid: "valid_TechnologyProfile kb_EC2" "valid_TechnologyProfile kb_AWS_Lambda"
  by (simp_all add: valid_TechnologyProfile_def valid_DimensionScore_def kb_EC2_def
      kb_AWS_Lambda_def standard_dimensions_def)

theorem C9_no_insufficient_data_witness:
  "2 \<le> length [kb_EC2, kb_AWS_Lambda] \<and> length [kb_EC2, kb_AWS_Lambda] \<le> 5
   \<and> valid_TechnologyProfile kb_EC2 \<and> valid_TechnologyProfile kb_AWS_Lambda
   \<and> dimension_weights example_criteria \<noteq> []
   \<and> generate_comparison (\<lambda>x. ''0.0'') [kb_EC2, kb_AWS_Lambda] example_criteria None
        \<noteq> Inl InsufficientDataError"
proof -
  have a: "2 \<le> length [kb_EC2, kb_AWS_Lambda]" "length [kb_EC2, kb_AWS_Lambda] \<le> 5" by simp_all
  have b: "\<forall>t \<in> set [kb_EC2, kb_AWS_Lambda]. valid_TechnologyProfile t"
    using kb_valid by simp
  have c: "dimension_weights example_criteria \<noteq> []" by (simp add: example_criteria_def)
  show ?thesis
    using C9_no_insufficient_data[OF a b c, of None "\<lambda>x. ''0.0''"] a kb_valid c by blast
qed

section \<open>Knowledge-base lookup\<close>

lemma find_Some_ex:
  "\<exists>x \<in> set xs. P x \<Longrightarrow> \<exists>y. find P xs = Some y \<and> y \<in> set xs \<and> P y"
  by (induction xs) auto

lemma find_Some_in: "find P xs = Some y \<Longrightarrow> y \<in> set xs"
  by (induction xs) (auto split: if_splits)

lemma get_technology_profile_found:
  assumes nonblank: "strip q \<noteq> []"
    and match: "\<exists>k \<in> set (map fst kb).
                  sublist (lower k) (strip (lower q)) \<or> sublist (strip (lower q)) (lower k)"
  shows "\<exists>p \<in> set (map snd kb). get_technology_profile kb q = Some p"
proof -
  from nonblank have q: "q \<noteq> []" by (auto simp: strip_def)
  show ?thesis
  proof (cases "map_of kb q")
    case (Some p)
    then have "(q, p) \<in> set kb" by (rule map_of_SomeD)
    then have "p \<in> set (map snd kb)" by force
    then show ?thesis using Some q nonblank by (simp add: get_technology_profile_def)
  next
    case None
    show ?thesis
    proof (cases "find (\<lambda>(known_tech, profile). lower known_tech = lower q) kb")
      case (Some kp)
      then have "kp \<in> set kb" by (rule find_Some_in)
      then have "snd kp \<in> set (map snd kb)" by force
      then show ?thesis using Some None q nonblank
        by (cases kp) (simp add: get_technology_profile_def)
    next
      case N2: None
      let ?P = "\<lambda>(known_tech, profile).
                  (let known_lower = lower known_tech in
                   sublist (strip (lower q)) known_lower \<or> sublist known_lower (strip (lower q))
                   \<or> is_abbreviation_match (strip (lower q)) known_lower)"
      from match have "\<exists>x \<in> set kb. ?P x" by (fastforce simp: Let_def)
      from find_Some_ex[OF this] obtain kp where f: "find ?P kb = Some kp" and i: "kp \<in> set kb"
        by blast
      from i have "snd kp \<in> set (map snd kb)" by force
      then show ?thesis using f None N2 q nonblank
        by (cases kp) (simp add: get_technology_profile_def Let_def)
    qed
  qed
qed

lemma kb_lower_names:
  "lower ''REST'' = ''rest''" "lower ''GraphQL'' = ''graphql''" "lower ''AWS Lambda'' = ''aws lambda''"
  "lower ''EC2'' = ''ec2''" "lower ''React'' = ''react''" "lower ''Vue'' = ''vue''"
  "lower ''PostgreSQL'' = ''postgresql''" "lower ''MongoDB'' = ''mongodb''"
  by (simp_all add: lower_def lower_char_def)

lemma strip_kb_lower:
  "strip ''rest'' = ''rest''" "strip ''graphql'' = ''graphql''" "strip ''aws lambda'' = ''aws lambda''"
  "strip ''ec2'' = ''ec2''" "strip ''react'' = ''react''" "strip ''vue'' = ''vue''"
  "strip ''postgresql'' = ''postgresql''" "strip ''mongodb'' = ''mongodb''"
  by (simp_all add: strip_def is_space_def)

lemma no_rest_in_others:
  "\<not> sublist ''rest'' ''graphql''" "\<not> sublist ''rest'' ''aws lambda''" "\<not> sublist ''rest'' ''ec2''"
  "\<not> sublist ''rest'' ''react''" "\<not> sublist ''rest'' ''vue''" "\<not> sublist ''rest'' ''postgresql''"
  "\<not> sublist ''rest'' ''mongodb''"
  by (simp_all add: sublist_code)

lemma kb_entry_rest:
  assumes "(k, p) \<in> set knowledge_base" and "sublist ''rest'' (strip (lower k))"
  shows "k = ''REST'' \<and> p = kb_REST"
proof -
  from assms(1) have "(k, p) = (''REST'', kb_REST) \<or> (k, p) = (''GraphQL'', kb_GraphQL)
      \<or> (k, p) = (''AWS Lambda'', kb_AWS_Lambda) \<or> (k, p) = (''EC2'', kb_EC2)
      \<or> (k, p) = (''React'', kb_React) \<or> (k, p) = (''Vue'', kb_Vue)
      \<or> (k, p) = (''PostgreSQL'', kb_PostgreSQL) \<or> (k, p) = (''MongoDB'', kb_MongoDB)"
    unfolding knowledge_base_def by (simp only: list.set insert_iff empty_iff simp_thms)
  then show ?thesis
  proof (elim disjE)
    assume "(k, p) = (''REST'', kb_REST)" then show ?thesis by (simp only: prod.inject)
  next
    assume "(k, p) = (''GraphQL'', kb_GraphQL)"
    then have "k = ''GraphQL''" by (simp only: prod.inject)
    with assms(2) show ?thesis by (simp only: kb_lower_names strip_kb_lower no_rest_in_others)
  next
    assume "(k, p) = (''AWS Lambda'', kb_AWS_Lambda)"
    then have "k = ''AWS Lambda''" by (simp only: prod.inject)
    with assms(2) show ?thesis by (simp only: kb_lower_names strip_kb_lower no_rest_in_others)
  next
    assume "(k, p) = (''EC2'', kb_EC2)"
    then have "k = ''EC2''" by (simp only: prod.inject)
    with assms(2) show ?thesis by (simp only: kb_lower_names strip_kb_lower no_rest_in_others)
  next
    assume "(k, p) = (''React'', kb_React)"
    then have "k = ''React''" by (simp only: prod.inject)
    with assms(2) show ?thesis by (simp only: kb_lower_names strip_kb_lower no_rest_in_others)
  next
    assume "(k, p) = (''Vue'', kb_Vue)"
    then have "k = ''Vue''" by (simp only: prod.inject)
    with assms(2) show ?thesis by (simp only: kb_lower_names strip_kb_lower no_rest_in_others)
  next
    assume "(k, p) = (''PostgreSQL'', kb_PostgreSQL)"
    then have "k = ''PostgreSQL''" by (simp only: prod.inject)
    with assms(2) show ?thesis by (simp only: kb_lower_names strip_kb_lower no_rest_in_others)
  next
    assume "(k, p) = (''MongoDB'', kb_MongoDB)"
    then have "k = ''MongoDB''" by (simp only: prod.inject)
    with assms(2) show ?thesis by (simp only: kb_lower_names strip_kb_lower no_rest_in_others)
  qed
qed

lemma find_SomeD: "find P xs = Some y \<Longrightarrow> y \<in> set xs \<and> P y"
  by (induction xs) (auto split: if_splits)

lemma rest_resolves:
  assumes nonblank: "strip q \<noteq> []" and rest: "sublist ''rest'' (strip (lower q))"
  shows "get_technology_profile knowledge_base q = Some kb_REST"
proof -
  let ?ci = "\<lambda>(known_tech, profile). lower known_tech = lower q"
  let ?P = "\<lambda>(known_tech, profile).
                  (let known_lower = lower known_tech in
                   sublist (strip (lower q)) known_lower \<or> sublist known_lower (strip (lower q))
                   \<or> is_abbreviation_match (strip (lower q)) known_lower)"
  from nonblank have q: "q \<noteq> []" by (auto simp: strip_def)
  have unfolded: "get_technology_profile knowledge_base q =
      (case map_of knowledge_base q of
          Some profile \<Rightarrow> Some profile
        | None \<Rightarrow>
           (case find ?ci knowledge_base of
              Some (known_tech, profile) \<Rightarrow> Some profile
            | None \<Rightarrow>
               (case find ?P knowledge_base of
                  Some (known_tech, profile) \<Rightarrow> Some profile
                | None \<Rightarrow> None)))"
    using q nonblank unfolding get_technology_profile_def Let_def by simp
  have exact: "\<And>p. map_of knowledge_base q = Some p \<Longrightarrow> p = kb_REST"
    using kb_entry_rest[OF map_of_SomeD rest] by blast
  have ci: "\<And>k p. find ?ci knowledge_base = Some (k, p) \<Longrightarrow> p = kb_REST"
  proof -
    fix k p assume "find ?ci knowledge_base = Some (k, p)"
    from find_SomeD[OF this] have i: "(k, p) \<in> set knowledge_base" and l: "lower k = lower q"
      by auto
    from rest l have "sublist ''rest'' (strip (lower k))" by simp
    from kb_entry_rest[OF i this] show "p = kb_REST" by blast
  qed
  have P: "?P (''REST'', kb_REST)"
    using rest by (simp only: prod.case Let_def kb_lower_names simp_thms)
  have kb: "knowledge_base = (''REST'', kb_REST) # tl knowledge_base"
    by (simp only: knowledge_base_def list.sel)
  have sub: "find ?P knowledge_base = Some (''REST'', kb_REST)"
    by (subst kb, simp only: find.simps P if_True)
  show ?thesis
  proof (cases "map_of knowledge_base q")
    case (Some p)
    then show ?thesis using exact[OF Some] by (simp only: unfolded option.case)
  next
    case None
    show ?thesis
    proof (cases "find ?ci knowledge_base")
      case (Some kp)
      obtain k p where kp: "kp = (k, p)" by (cases kp)
      from Some ci kp have "p = kb_REST" by blast
      then show ?thesis using None Some kp by (simp only: unfolded option.case prod.case)
    next
      case N2: None
      show ?thesis using None N2 sub by (simp only: unfolded option.case prod.case)
    qed
  qed
qed

text \<open>
  Claim C10. For a non-blank query whose lower-cased, trimmed form contains the
  lower-cased name of a knowledge-base entry, or is contained in one,
  get_technology_profile returns a profile of the knowledge base, and
  get_technology_profile_with_fallback returns that profile without synthesizing a
  fallback. In the knowledge base of the analyzer every query that contains "rest"
  resolves to the REST profile.
\<close>

theorem C10_substring_lookup_finds_profile:
  assumes "strip q \<noteq> []"
    and "\<exists>k \<in> set (map fst kb).
           sublist (lower k) (strip (lower q)) \<or> sublist (strip (lower q)) (lower k)"
  shows "(\<exists>p \<in> set (map snd kb). get_technology_profile kb q = Some p
            \<and> get_technology_profile_with_fallback kb q = Inr (False, p))
         \<and> (sublist ''rest'' (strip (lower q)) \<longrightarrow>
              get_technology_profile knowledge_base q = Some kb_REST)"
proof -
  from get_technology_profile_found[OF assms]
  obtain p where "p \<in> set (map snd kb)" "get_technology_profile kb q = Some p" by blast
  then have "\<exists>p \<in> set (map snd kb). get_technology_profile kb q = Some p
            \<and> get_technology_profile_with_fallback kb q = Inr (False, p)"
    by (auto simp: get_technology_profile_with_fallback_def)
  moreover have "sublist ''rest'' (strip (lower q)) \<longrightarrow>
              get_technology_profile knowledge_base q = Some kb_REST"
    using rest_resolves[OF assms(1)] by blast
  ultimately show ?thesis by blast
qed

lemma unrest_normal: "strip ''unrest'' = ''unrest''" "strip (lower ''unrest'') = ''unrest''"
  by (simp_all add: strip_def is_space_def lower_def lower_char_def)

theorem C10_substring_lookup_finds_profile_witness:
  "strip ''unrest'' \<noteq> [] \<and> sublist (lower ''REST'') (strip (lower ''unrest''))
   \<and> get_technology_profile knowledge_base ''unrest'' = Some kb_REST
   \<and> get_technology_profile_with_fallback knowledge_base ''unrest'' = Inr (False, kb_REST)"
proof -
  have a: "strip ''unrest'' \<noteq> []" by (simp add: unrest_normal)
  have s: "sublist (lower ''REST'') (strip (lower ''unrest''))"
    by (simp add: unrest_normal kb_lower_names sublist_code)
  have b: "\<exists>k \<in> set (map fst knowledge_base).
           sublist (lower k) (strip (lower ''unrest'')) \<or> sublist (strip (lower ''unrest'')) (lower k)"
    using s by (simp add: knowledge_base_def)
  have r: "sublist ''rest'' (strip (lower ''unrest''))" using s by (simp add: kb_lower_names)
  from C10_substring_lookup_finds_profile[OF a b] r
  have g: "get_technology_profile knowledge_base ''unrest'' = Some kb_REST" by blast
  then have "get_technology_profile_with_fallback knowledge_base ''unrest'' = Inr (False, kb_REST)"
    by (simp add: get_technology_profile_with_fallback_def)
  with a s g show ?thesis by blast
qed

section \<open>Custom dimensions and alternative scenarios\<close>

text \<open>
  Claim C8, as stated, fails on the request model and on the comparison engine: both
  compare custom dimension names with the standard names exactly, and accept "Cost", a case
  variant of "cost".
\<close>

theorem C8_case_variant_accepted_counterexample:
  "strip (lower ''Cost'') = ''cost''
   \<and> validate_custom_dimensions (Some [''Cost'']) = Inr (Some [''Cost''])
   \<and> get_comparison_dimensions (Some [''Cost''])
       = Inr [''cost'', ''scalability'', ''complexity'', ''ecosystem'', ''performance'', ''Cost'']"
  by (simp add: validate_custom_dimensions_def get_comparison_dimensions_def
      standard_dimensions_def strip_def lower_def lower_char_def is_space_def)

lemma parser_custom_conflict:
  assumes "\<exists>d \<in> set cds. strip (lower d) \<in> set standard_dimensions"
  shows "parser_validate_custom_dimensions cds = Inl (InputValidationError ''custom dimensions conflict'')"
proof -
  from assms have "filter (\<lambda>dimn. strip (lower dimn) \<in> set standard_dimensions) cds \<noteq> []"
    by (simp add: filter_empty_conv)
  then show ?thesis by (simp add: parser_validate_custom_dimensions_def Let_def)
qed

text \<open>
  Claim C8, amended. The input parser rejects a command line whose custom dimension,
  lower-cased and trimmed, is one of the five standard names (for example "Cost"), with an
  InputValidationError for conflicting custom dimensions, once the technology list and the
  team size have passed their checks. The validator of the request model and the comparison
  engine reject a list of custom dimensions exactly when one of them equals a standard name
  character for character.
\<close>

theorem C8_parser_rejects_case_variants:
  assumes "parser_validate_technology_count (arg_technologies args) = Inr ()"
    and "parser_validate_team_size (arg_team_size args) = Inr ()"
    and "arg_custom_dimensions args = Some cds"
    and "\<exists>d \<in> set cds. strip (lower d) \<in> set standard_dimensions"
  shows "convert_to_comparison_request args = Inl (InputValidationError ''custom dimensions conflict'')
    \<and> (validate_custom_dimensions (Some ds) = Inl ValueError
          \<longleftrightarrow> (\<exists>d \<in> set ds. d \<in> set standard_dimensions))
    \<and> (get_comparison_dimensions (Some ds) = Inl ValueError
          \<longleftrightarrow> (\<exists>d \<in> set ds. d \<in> set standard_dimensions))"
proof -
  from assms(4) have ne: "cds \<noteq> []" by auto
  have A: "convert_to_comparison_request args = Inl (InputValidationError ''custom dimensions conflict'')"
    using assms(1-3) ne parser_custom_conflict[OF assms(4)]
    by (simp add: convert_to_comparison_request_def)
  have B: "validate_custom_dimensions (Some ds) = Inl ValueError
          \<longleftrightarrow> (\<exists>d \<in> set ds. d \<in> set standard_dimensions)"
    by (auto simp: validate_custom_dimensions_def)
  have C: "get_comparison_dimensions (Some ds) = Inl ValueError
          \<longleftrightarrow> (\<exists>d \<in> set ds. d \<in> set standard_dimensions)"
    by (auto simp: get_comparison_dimensions_def)
  from A B C show ?thesis by blast
qed



lemma example_args_checks:
  "parser_validate_technology_count (arg_technologies example_args) = Inr ()"
  "parser_validate_team_size (arg_team_size example_args) = Inr ()"
  "arg_custom_dimensions example_args = Some [''Cost'']"
  "strip (lower ''Cost'') \<in> set standard_dimensions"
  by (simp_all add: example_args_def parser_validate_technology_count_def
      parser_validate_team_size_def strip_def lower_def lower_char_def is_space_def
      standard_dimensions_def)

theorem C8_parser_rejects_case_variants_witness:
  "parser_validate_technology_count (arg_technologies example_args) = Inr ()
   \<and> parser_validate_team_size (arg_team_size example_args) = Inr ()
   \<and> arg_custom_dimensions example_args = Some [''Cost'']
   \<and> strip (lower ''Cost'') \<in> set standard_dimensions
   \<and> convert_to_comparison_request example_args
        = Inl (InputValidationError ''custom dimensions conflict'')
   \<and> validate_custom_dimensions (Some [''cost'']) = Inl ValueError
   \<and> get_comparison_dimensions (Some [''cost'']) = Inl ValueError"
proof -
  have e: "\<exists>d \<in> set [''Cost'']. strip (lower d) \<in> set standard_dimensions"
    using example_args_checks(4) by simp
  have s: "\<exists>d \<in> set [''cost'']. d \<in> set standard_dimensions"
    by (simp add: standard_dimensions_def)
  from C8_parser_rejects_case_variants[OF example_args_checks(1-3) e, of "[''cost'']"] s
    example_args_checks
  show ?thesis by blast
qed

text \<open>
  Claim C6 at EC2 and AWS Lambda, listed in this order, under equal weights. AWS Lambda
  has the higher compatibility score and is ranked first; it also has the highest
  scalability score. The scalability scenario is compared with the first technology of the
  input list, EC2, so the scenario is included although it recommends the top pick.
\<close>

theorem C6_scalability_scenario_recommends_top_pick:
  "calculate_compatibility kb_EC2 example_criteria = Inr (example_scores ! 0)
   \<and> calculate_compatibility kb_AWS_Lambda example_criteria = Inr (example_scores ! 1)
   \<and> generate_recommendation [kb_EC2, kb_AWS_Lambda] example_scores example_criteria
        = Inr example_recommendation
   \<and> rc_technology (ranked_choices example_recommendation ! 0) = ''AWS Lambda''
   \<and> scenario (the (alternative_scenarios example_recommendation) ! 1)
        = ''If scalability becomes the top priority''
   \<and> recommended_tech (the (alternative_scenarios example_recommendation) ! 1) = ''AWS Lambda''"
  using example_compatibility example_generate_recommendation
  by (simp add: example_recommendation_def)

section \<open>Highlights of the trade-off matrix\<close>

lemma index_of_nth: "x \<in> set xs \<Longrightarrow> index_of x xs < length xs \<and> xs ! index_of x xs = x"
  by (induction xs) auto

lemma sorted_desc_Max:
  fixes x :: real
  assumes "sorted_wrt (\<lambda>a b. a \<ge> b) (x # xs)"
  shows "Max (set (x # xs)) = x"
proof (rule Max_eqI)
  show "finite (set (x # xs))" by simp
  show "\<And>y. y \<in> set (x # xs) \<Longrightarrow> y \<le> x" using assms by auto
  show "x \<in> set (x # xs)" by simp
qed

lemma mset_remove_nth:
  assumes "i < length xs"
  shows "mset (take i xs @ drop (Suc i) xs) = mset xs - {#xs ! i#}"
proof -
  have "mset xs = mset (take i xs @ xs ! i # drop (Suc i) xs)"
    using id_take_nth_drop[OF assms] by simp
  then show ?thesis by simp
qed

lemma sorted_reverse_top_two:
  fixes col :: "real list"
  assumes "2 \<le> length col"
  defines "i \<equiv> index_of (Max (set col)) col"
  shows "i < length col"
    and "col ! i = Max (set col)"
    and "sorted_reverse (\<lambda>x. x) col ! 0 = col ! i"
    and "sorted_reverse (\<lambda>x. x) col ! 1 = Max (set (take i col @ drop (Suc i) col))"
    and "take i col @ drop (Suc i) col \<noteq> []"
proof -
  let ?s = "sorted_reverse (\<lambda>x. x) col"
  have ms: "mset ?s = mset col" by (rule mset_sorted_reverse)
  then have len: "length ?s = length col" by (metis size_mset)
  with assms(1) obtain a b rest where s: "?s = a # b # rest"
    by (cases ?s; cases "tl ?s") auto
  have "sorted_wrt (\<lambda>a b. a \<ge> b) (map (\<lambda>x. x) ?s)" by (rule sorted_reverse_sorted)
  then have srt: "sorted_wrt (\<lambda>a b. a \<ge> b) (a # b # rest)" using s by simp
  have sets: "set ?s = set col" using ms by (rule mset_eq_setD)
  have ne: "col \<noteq> []" using assms(1) by auto
  have "set col = set (a # b # rest)" using sets s by simp
  then have mx: "Max (set col) = a"
    using sorted_desc_Max[OF srt] by (simp only:)
  have "Max (set col) \<in> set col" using ne by simp
  from index_of_nth[OF this] show i: "i < length col" and ci: "col ! i = Max (set col)"
    by (simp_all add: i_def)
  show "?s ! 0 = col ! i" using s ci mx by simp
  have "mset (take i col @ drop (Suc i) col) = mset col - {#col ! i#}"
    by (rule mset_remove_nth[OF i])
  also have "\<dots> = mset (b # rest)"
  proof -
    have "mset col = add_mset a (mset (b # rest))" using ms s by simp
    then show ?thesis using ci mx by simp
  qed
  finally have mo: "mset (take i col @ drop (Suc i) col) = mset (b # rest)" .
  then have "set (take i col @ drop (Suc i) col) = set (b # rest)" by (rule mset_eq_setD)
  moreover have "Max (set (b # rest)) = b"
    using srt by (intro sorted_desc_Max) simp
  ultimately show "?s ! 1 = Max (set (take i col @ drop (Suc i) col))" using s by simp
  show "take i col @ drop (Suc i) col \<noteq> []"
  proof
    assume e: "take i col @ drop (Suc i) col = []"
    from mo show False unfolding e by simp
  qed
qed

lemma highlights_loop_all:
  assumes "\<And>j d. (j, d) \<in> set jds \<Longrightarrow> highlight_for fmt technologies scs j d = Inr (g j d)"
  shows "highlights_loop fmt technologies scs jds
           = Inr (concat (map (\<lambda>(j, d). case g j d of None \<Rightarrow> [] | Some h \<Rightarrow> [h]) jds))"
  using assms
proof (induction jds)
  case Nil
  then show ?case by simp
next
  case (Cons jd jds)
  obtain j d where jd: "jd = (j, d)" by (cases jd)
  have h: "highlight_for fmt technologies scs j d = Inr (g j d)"
    using Cons.prems jd by simp
  have r: "highlights_loop fmt technologies scs jds
           = Inr (concat (map (\<lambda>(j, d). case g j d of None \<Rightarrow> [] | Some h \<Rightarrow> [h]) jds))"
    using Cons.prems by (intro Cons.IH) simp
  show ?case by (simp add: jd h r)
qed

lemma highlight_for_spec:
  assumes two: "2 \<le> length technologies"
    and rows: "length scs = length technologies"
    and cols: "\<forall>row \<in> set scs. j < length row"
    and names: "\<forall>t \<in> set technologies. name t \<noteq> []"
    and expls: "\<forall>t \<in> set technologies. \<forall>ds. map_of (dimensions t) d = Some ds \<longrightarrow> explanation ds \<noteq> []"
    and d: "d \<noteq> []"
  shows "highlight_for fmt technologies scs j d = Inr (spec_highlight fmt technologies scs j d)"
proof -
  let ?col = "map (\<lambda>row. row ! j) scs"
  let ?i = "index_of (Max (set ?col)) ?col"
  let ?s = "sorted_reverse (\<lambda>x. x) ?col"
  let ?E = "case map_of (dimensions (technologies ! ?i)) d of
               Some ds \<Rightarrow> explanation ds
             | None \<Rightarrow> ''Leads in '' @ d @ '' with score of '' @ fmt (Max (set ?col))"
  let ?h = "\<lparr>dimension = d, leader = name (technologies ! ?i), hl_explanation = ?E\<rparr>"
  have inrange: "(\<exists>tech_idx \<in> set [0..<length technologies].
          \<not> (tech_idx < length scs \<and> j < length (scs ! tech_idx))) = False"
    using rows cols by auto
  have col: "map (\<lambda>tech_idx. scs ! tech_idx ! j) [0..<length technologies] = ?col"
    using rows by (intro nth_equalityI) auto
  have len: "2 \<le> length ?col" using two rows by simp
  note t = sorted_reverse_top_two[OF len]
  have ne: "(?col = []) = False" using len by auto
  have ls: "length ?s > 1" using len by (simp add: sorted_reverse_def)
  have it: "technologies ! ?i \<in> set technologies" using t(1) rows by simp
  have lead: "name (technologies ! ?i) \<noteq> []" using names it by blast
  have ex: "?E \<noteq> []"
    using expls it by (auto split: option.splits)
  have hf: "highlight_for fmt technologies scs j d =
      (if length ?s > 1 \<and> ?s ! 0 - ?s ! 1 \<ge> 0.5 then
         (if d = [] \<or> name (technologies ! ?i) = [] \<or> ?E = [] then Inl ValueError
          else Inr (Some ?h))
       else Inr None)"
    unfolding highlight_for_def Let_def by (simp only: inrange col ne if_False)
  have sh: "spec_highlight fmt technologies scs j d =
      (case spec_leader ?col of None \<Rightarrow> None
       | Some i \<Rightarrow> Some \<lparr>dimension = d, leader = name (technologies ! i),
               hl_explanation =
                 (case map_of (dimensions (technologies ! i)) d of
                    Some ds \<Rightarrow> explanation ds
                  | None \<Rightarrow> ''Leads in '' @ d @ '' with score of '' @ fmt (?col ! i))\<rparr>)"
    unfolding spec_highlight_def Let_def by (rule refl)
  have sl: "spec_leader ?col = (if ?s ! 0 - ?s ! 1 \<ge> 0.5 then Some ?i else None)"
    unfolding spec_leader_def Let_def using t(3,4,5) by (simp only: simp_thms)
  show ?thesis
  proof (cases "?s ! 0 - ?s ! 1 \<ge> 0.5")
    case True
    have "highlight_for fmt technologies scs j d = Inr (Some ?h)"
      using True ls d lead ex by (simp only: hf simp_thms if_True if_False)
    moreover have "spec_highlight fmt technologies scs j d = Some ?h"
      using True by (simp only: sh sl if_True option.case t(2))
    ultimately show ?thesis by (simp only:)
  next
    case False
    have "highlight_for fmt technologies scs j d = Inr None"
      using False by (simp only: hf simp_thms if_False)
    moreover have "spec_highlight fmt technologies scs j d = None"
      using False by (simp only: sh sl if_False option.case)
    ultimately show ?thesis by (simp only:)
  qed
qed

lemma identify_highlights_spec:
  assumes two: "2 \<le> length technologies"
    and rows: "length scs = length technologies"
    and cols: "\<forall>row \<in> set scs. length row = length dims"
    and names: "\<forall>t \<in> set technologies. name t \<noteq> []"
    and expls: "\<forall>t \<in> set technologies. \<forall>d ds. map_of (dimensions t) d = Some ds \<longrightarrow> explanation ds \<noteq> []"
    and dims: "\<forall>d \<in> set dims. d \<noteq> []"
  shows "identify_highlights fmt technologies dims scs = Inr (spec_highlights fmt technologies dims scs)"
proof -
  have "\<And>j d. (j, d) \<in> set (enumerate 0 dims) \<Longrightarrow>
          highlight_for fmt technologies scs j d = Inr (spec_highlight fmt technologies scs j d)"
  proof -
    fix j d assume "(j, d) \<in> set (enumerate 0 dims)"
    then have j: "j < length dims" and dj: "d \<in> set dims"
      by (auto simp: in_set_enumerate_eq)
    have c: "\<forall>row \<in> set scs. j < length row" using cols j by simp
    have e: "\<forall>t \<in> set technologies. \<forall>ds. map_of (dimensions t) d = Some ds \<longrightarrow> explanation ds \<noteq> []"
      using expls by blast
    have dd: "d \<noteq> []" using dims dj by blast
    show "highlight_for fmt technologies scs j d = Inr (spec_highlight fmt technologies scs j d)"
      by (rule highlight_for_spec[OF two rows c names e dd])
  qed
  from highlights_loop_all[of "enumerate 0 dims" fmt technologies scs
      "spec_highlight fmt technologies scs", OF this]
  show ?thesis by (simp add: identify_highlights_def spec_highlights_def)
qed

lemma valid_profile_explanations:
  assumes "valid_TechnologyProfile t" and "map_of (dimensions t) d = Some ds"
  shows "explanation ds \<noteq> []"
proof -
  from assms(2) have "(d, ds) \<in> set (dimensions t)" by (rule map_of_SomeD)
  moreover from assms(1) have "list_all (\<lambda>(k, ds). valid_DimensionScore ds) (dimensions t)"
    by (simp add: valid_TechnologyProfile_def)
  ultimately have "valid_DimensionScore ds" by (auto simp: list_all_iff)
  then show ?thesis by (simp add: valid_DimensionScore_def)
qed

text \<open>
  Claim C7. A trade-off matrix over at least two valid technology profiles has, for each
  dimension, a highlight exactly when the maximum score of the dimension exceeds the
  second-highest score by at least 0.5; the leader of the highlight is the technology with
  the maximum score, and its explanation is the explanation of the leader's profile for the
  dimension when the profile has the dimension, and the text "Leads in <dimension> with
  score of X" otherwise.
\<close>

theorem C7_highlights_of_tradeoff_matrix:
  assumes "2 \<le> length technologies"
    and "\<forall>t \<in> set technologies. valid_TechnologyProfile t"
    and "dims \<noteq> []" and "length dims \<le> 10" and "\<forall>d \<in> set dims. d \<noteq> []"
  shows "\<exists>m. create_tradeoff_matrix fmt technologies dims = Inr m
           \<and> scores m = matrix_scores technologies dims
           \<and> highlights m = spec_highlights fmt technologies dims (matrix_scores technologies dims)"
proof -
  have names: "\<forall>t \<in> set technologies. name t \<noteq> []"
    using assms(2) by (simp add: valid_TechnologyProfile_def)
  have expls: "\<forall>t \<in> set technologies. \<forall>d ds. map_of (dimensions t) d = Some ds \<longrightarrow> explanation ds \<noteq> []"
    using assms(2) valid_profile_explanations by blast
  have rows: "length (matrix_scores technologies dims) = length technologies"
    by (simp add: matrix_scores_def)
  have cols: "\<forall>row \<in> set (matrix_scores technologies dims). length row = length dims"
    by (auto simp: matrix_scores_def)
  have h: "identify_highlights fmt technologies dims (matrix_scores technologies dims)
         = Inr (spec_highlights fmt technologies dims (matrix_scores technologies dims))"
    using assms(1) rows cols names expls assms(5) by (rule identify_highlights_spec)
  have ne: "technologies \<noteq> []" using assms(1) by auto
  have l2: "\<not> length technologies < 2" using assms(1) by simp
  show ?thesis
    using ne l2 assms(3,4) h
    by (simp add: create_tradeoff_matrix_def validate_matrix_inputs_def Let_def)
qed

section \<open>Highlights at REST and GraphQL\<close>

lemma kb_valid_apis: "valid_TechnologyProfile kb_REST" "valid_TechnologyProfile kb_GraphQL"
  by (simp_all add: valid_TechnologyProfile_def valid_DimensionScore_def kb_REST_def
      kb_GraphQL_def standard_dimensions_def)

lemma example_matrix_scores:
  "matrix_scores [kb_REST, kb_GraphQL] standard_dimensions
     = [[4.5, 4, 4.5, 5, 3.5], [3, 4.5, 2.5, 4, 4.5]]"
  by (simp add: matrix_scores_def kb_REST_def kb_GraphQL_def standard_dimensions_def)

lemma example_spec_highlights:
  "map (\<lambda>h. (dimension h, leader h))
     (spec_highlights (\<lambda>x. ''0.0'') [kb_REST, kb_GraphQL] standard_dimensions
        [[4.5, 4, 4.5, 5, 3.5], [3, 4.5, 2.5, 4, 4.5]])
   = [(''cost'', ''REST''), (''scalability'', ''GraphQL''), (''complexity'', ''REST''),
      (''ecosystem'', ''REST''), (''performance'', ''GraphQL'')]"
  by (simp add: spec_highlights_def spec_highlight_def spec_leader_def standard_dimensions_def
      Let_def kb_REST_def kb_GraphQL_def)

text \<open>
  Claim C7 at REST and GraphQL over the five standard dimensions: every dimension has a
  highlight, among them ecosystem for REST (5.0 against 4.0).
\<close>

theorem C7_highlights_of_tradeoff_matrix_witness:
  "2 \<le> length [kb_REST, kb_GraphQL]
   \<and> valid_TechnologyProfile kb_REST \<and> valid_TechnologyProfile kb_GraphQL
   \<and> standard_dimensions \<noteq> [] \<and> length standard_dimensions \<le> 10
   \<and> (\<exists>m. create_tradeoff_matrix (\<lambda>x. ''0.0'') [kb_REST, kb_GraphQL] standard_dimensions = Inr m
          \<and> map (\<lambda>h. (dimension h, leader h)) (highlights m)
              = [(''cost'', ''REST''), (''scalability'', ''GraphQL''), (''complexity'', ''REST''),
                 (''ecosystem'', ''REST''), (''performance'', ''GraphQL'')])"
proof -
  have a: "2 \<le> length [kb_REST, kb_GraphQL]" by simp
  have b: "\<forall>t \<in> set [kb_REST, kb_GraphQL]. valid_TechnologyProfile t"
    using kb_valid_apis by simp
  have c: "standard_dimensions \<noteq> []" "length standard_dimensions \<le> 10"
    by (simp_all add: standard_dimensions_def)
  have d: "\<forall>d \<in> set standard_dimensions. d \<noteq> []"
    by (simp add: standard_dimensions_def)
  from C7_highlights_of_tradeoff_matrix[OF a b c d, of "\<lambda>x. ''0.0''"]
  obtain m where m: "create_tradeoff_matrix (\<lambda>x. ''0.0'') [kb_REST, kb_GraphQL] standard_dimensions = Inr m"
    and h: "highlights m = spec_highlights (\<lambda>x. ''0.0'') [kb_REST, kb_GraphQL] standard_dimensions
              (matrix_scores [kb_REST, kb_GraphQL] standard_dimensions)"
    by blast
  have hl: "map (\<lambda>h. (dimension h, leader h)) (highlights m)
              = [(''cost'', ''REST''), (''scalability'', ''GraphQL''), (''complexity'', ''REST''),
                 (''ecosystem'', ''REST''), (''performance'', ''GraphQL'')]"
    by (simp only: h example_matrix_scores example_spec_highlights)
  have e: "\<exists>m. create_tradeoff_matrix (\<lambda>x. ''0.0'') [kb_REST, kb_GraphQL] standard_dimensions = Inr m
          \<and> map (\<lambda>h. (dimension h, leader h)) (highlights m)
              = [(''cost'', ''REST''), (''scalability'', ''GraphQL''), (''complexity'', ''REST''),
                 (''ecosystem'', ''REST''), (''performance'', ''GraphQL'')]"
    by (intro exI[of _ m] conjI m hl)
  show ?thesis by (intro conjI a kb_valid_apis c e)
qed

section \<open>Keys and validation of the calculated weights\<close>

lemma map_fst_dict_set: "k \<in> set (map fst d) \<Longrightarrow> map fst (dict_set d k v) = map fst d"
  by (induction d) force+

lemma map_fst_normalize: "map fst (normalize d) = map fst d"
  by (simp add: normalize_def Let_def case_prod_unfold comp_def)

lemma map_fst_apply_boosts:
  "set (map fst bs) \<subseteq> set (map fst ws) \<Longrightarrow> map fst (apply_boosts bs ws) = map fst ws"
proof (induction bs arbitrary: ws)
  case Nil
  then show ?case by simp
next
  case (Cons b bs)
  obtain k v where b: "b = (k, v)" by (cases b)
  have k: "k \<in> set (map fst ws)" using Cons.prems b by simp
  have "map fst (dict_set ws k (dict_item ws k + v)) = map fst ws"
    by (rule map_fst_dict_set[OF k])
  moreover have "map fst (apply_boosts bs (dict_set ws k (dict_item ws k + v)))
      = map fst (dict_set ws k (dict_item ws k + v))"
    using Cons.prems calculation by (intro Cons.IH) simp
  ultimately show ?case by (simp add: b)
qed

lemma map_fst_take_from_lowest:
  "set (map fst xs) \<subseteq> set (map fst nw) \<Longrightarrow>
     map fst (take_from_lowest target xs remaining nw) = map fst nw"
proof (induction xs arbitrary: remaining nw)
  case Nil
  then show ?case by simp
next
  case (Cons x xs)
  obtain k w where x: "x = (k, w)" by (cases x)
  have k: "k \<in> set (map fst nw)" using Cons.prems x by simp
  have sub: "set (map fst xs) \<subseteq> set (map fst nw)" using Cons.prems by simp
  have s: "\<And>v. map fst (dict_set nw k v) = map fst nw" by (rule map_fst_dict_set[OF k])
  have r: "\<And>v rem. map fst (take_from_lowest target xs rem (dict_set nw k v)) = map fst nw"
    using sub s Cons.IH by metis
  show ?case using s r Cons.IH[OF sub] by (simp add: x Let_def)
qed

lemma map_fst_scale_priority_override:
  assumes "map fst nw = standard_dimensions"
  shows "map fst (scale_priority_override r nw) = standard_dimensions"
proof -
  have keys: "set (map fst (sort_key snd nw)) \<subseteq> set (map fst nw)" by simp
  have t: "\<And>target rem. map fst (take_from_lowest target (sort_key snd nw) rem nw) = map fst nw"
    by (rule map_fst_take_from_lowest[OF keys])
  have s: "\<And>target rem v. target \<in> set standard_dimensions \<Longrightarrow>
            map fst (normalize (dict_set (take_from_lowest target (sort_key snd nw) rem nw) target v))
              = map fst nw"
    using t assms by (simp add: map_fst_normalize map_fst_dict_set)
  have m: "''scalability'' \<in> set standard_dimensions" "''performance'' \<in> set standard_dimensions"
    by (simp_all add: standard_dimensions_def)
  show ?thesis
    using assms s[OF m(1)] s[OF m(2)]
    by (simp add: scale_priority_override_def Let_def)
qed

lemma map_fst_foldl_reduce_other:
  "set ds \<subseteq> set (map fst nw) \<Longrightarrow> map fst (foldl (reduce_other nb tw) nw ds) = map fst nw"
proof (induction ds arbitrary: nw)
  case Nil
  then show ?case by simp
next
  case (Cons d ds)
  have e: "map fst (reduce_other nb tw nw d) = map fst nw"
    using Cons.prems by (simp add: reduce_other_def Let_def map_fst_dict_set)
  have "set ds \<subseteq> set (map fst (reduce_other nb tw nw d))"
    using Cons.prems by (simp only: e) simp
  from Cons.IH[OF this] e show ?case by simp
qed

lemma map_fst_force_above_baseline:
  assumes "dimn \<in> set (map fst nw)"
  shows "map fst (force_above_baseline top_dims dimn nw) = map fst nw"
proof -
  have "set (filter (\<lambda>d. d \<notin> set top_dims) (map fst nw)) \<subseteq> set (map fst nw)" by auto
  then have "\<And>nb tw. map fst (foldl (reduce_other nb tw) nw (filter (\<lambda>d. d \<notin> set top_dims) (map fst nw)))
      = map fst nw"
    by (rule map_fst_foldl_reduce_other)
  then show ?thesis
    using assms by (simp add: force_above_baseline_def Let_def map_fst_normalize map_fst_dict_set)
qed

lemma map_fst_foldl_force:
  "set ds \<subseteq> set (map fst nw) \<Longrightarrow>
     map fst (foldl (\<lambda>nw dimn. force_above_baseline top_dims dimn nw) nw ds) = map fst nw"
proof (induction ds arbitrary: nw)
  case Nil
  then show ?case by simp
next
  case (Cons d ds)
  have e: "map fst (force_above_baseline top_dims d nw) = map fst nw"
    using Cons.prems by (intro map_fst_force_above_baseline) simp
  have "set ds \<subseteq> set (map fst (force_above_baseline top_dims d nw))"
    using Cons.prems by (simp only: e) simp
  from Cons.IH[OF this] e show ?case by simp
qed

lemma map_fst_dimension_boosts:
  "map fst (dimension_boosts r)
     = [''cost'', ''complexity'', ''scalability'', ''performance'', ''ecosystem'']"
  by (simp add: dimension_boosts_def Let_def)

lemma calculate_dimension_weights_keys:
  "map fst (calculate_dimension_weights r) = standard_dimensions"
proof -
  let ?w0 = "map (\<lambda>d. (d, 0.2 :: real)) standard_dimensions"
  let ?w1 = "apply_boosts (dimension_boosts r) ?w0"
  let ?w2 = "map (\<lambda>(dimn, w). (dimn, max 0.05 w)) ?w1"
  let ?n = "scale_priority_override r (normalize ?w2)"
  let ?hl = "sorted_reverse snd (filter (\<lambda>(dm, boost). boost > 0.02) (dimension_boosts r))"
  let ?top = "map fst (take (min 3 (length ?hl)) ?hl)"
  have k0: "map fst ?w0 = standard_dimensions" by (simp add: comp_def)
  have "set (map fst (dimension_boosts r)) \<subseteq> set (map fst ?w0)"
    by (simp add: map_fst_dimension_boosts k0 standard_dimensions_def)
  then have k1: "map fst ?w1 = standard_dimensions"
    using map_fst_apply_boosts k0 by metis
  have k2: "map fst ?w2 = standard_dimensions"
    using k1 by (simp add: case_prod_unfold comp_def)
  have kn: "map fst ?n = standard_dimensions"
    using k2 by (intro map_fst_scale_priority_override) (simp add: map_fst_normalize)
  have "set ?top \<subseteq> set (map fst ?hl)" by (metis set_take_subset set_map image_mono)
  also have "\<dots> \<subseteq> set (map fst (dimension_boosts r))"
    by (auto simp: sorted_reverse_def)
  also have "\<dots> = set standard_dimensions"
    by (auto simp: map_fst_dimension_boosts standard_dimensions_def)
  finally have top: "set ?top \<subseteq> set (map fst ?n)" using kn by simp
  have "map fst (foldl (\<lambda>nw dimn. force_above_baseline ?top dimn nw) ?n ?top) = map fst ?n"
    by (rule map_fst_foldl_force[OF top])
  then show ?thesis
    using kn by (simp add: calculate_dimension_weights_def Let_def)
qed

lemma validate_weights_invariant:
  assumes "validate_weights ws = Inr ()" and "map fst ws = standard_dimensions"
  shows "weights_invariant ws"
proof -
  from assms(1) have ne: "ws \<noteq> []"
    and s: "0.95 \<le> sum_list (dict_values ws)" "sum_list (dict_values ws) \<le> 1.05"
    and mx: "\<not> Max (set (dict_values ws)) > 0.6"
    and mn: "\<not> Min (set (dict_values ws)) < 0.05"
    by (auto simp: validate_weights_def Let_def split: if_splits)
  have f: "finite (set (dict_values ws))" by simp
  have "\<And>w. w \<in> set (dict_values ws) \<Longrightarrow> 0.05 \<le> w \<and> w \<le> 0.6"
  proof -
    fix w assume w: "w \<in> set (dict_values ws)"
    have "w \<le> Max (set (dict_values ws))" using f w by (rule Max_ge)
    moreover have "Min (set (dict_values ws)) \<le> w" using f w by (rule Min_le)
    ultimately show "0.05 \<le> w \<and> w \<le> 0.6" using mx mn by linarith
  qed
  then have "list_all (\<lambda>w. 0.05 \<le> w \<and> w \<le> 0.6) (dict_values ws)"
    by (simp add: list_all_iff)
  with s assms(2) show ?thesis by (simp add: weights_invariant_def)
qed

lemma process_requirements_sound:
  assumes "process_requirements_with detect r = Inr wc"
  shows "weights_invariant (dimension_weights wc)"
proof -
  from assms have v: "validate_weights (calculate_dimension_weights r) = Inr ()"
    and w: "dimension_weights wc = calculate_dimension_weights r"
    by (auto simp: process_requirements_with_def Let_def split: sum.splits if_splits)
  show ?thesis
    using validate_weights_invariant[OF v calculate_dimension_weights_keys] w by simp
qed

lemma process_requirements_cases:
  assumes "validate_requirements r = Inr ()" and "detect r = []"
  shows "process_requirements_with detect r =
           (if validate_weights (calculate_dimension_weights r) = Inr ()
            then Inr \<lparr>dimension_weights = calculate_dimension_weights r,
                      priority_factors = identify_priority_factors r\<rparr>
            else Inl RequirementsProcessingError)"
  using assms by (auto simp: process_requirements_with_def Let_def split: sum.splits)

section \<open>Evaluating the weight calculation\<close>

lemma dict_item_weights5:
  "dict_item (weights5 a b c d e) ''cost'' = a"
  "dict_item (weights5 a b c d e) ''scalability'' = b"
  "dict_item (weights5 a b c d e) ''complexity'' = c"
  "dict_item (weights5 a b c d e) ''ecosystem'' = d"
  "dict_item (weights5 a b c d e) ''performance'' = e"
  by (simp_all add: weights5_def)

lemma dict_set_weights5:
  "dict_set (weights5 a b c d e) ''cost'' v = weights5 v b c d e"
  "dict_set (weights5 a b c d e) ''scalability'' v = weights5 a v c d e"
  "dict_set (weights5 a b c d e) ''complexity'' v = weights5 a b v d e"
  "dict_set (weights5 a b c d e) ''ecosystem'' v = weights5 a b c v e"
  "dict_set (weights5 a b c d e) ''performance'' v = weights5 a b c d v"
  by (simp_all add: weights5_def)

lemma normalize_weights5:
  "normalize (weights5 a b c d e) =
     (let t = a + b + c + d + e in weights5 (a / t) (b / t) (c / t) (d / t) (e / t))"
  by (simp add: weights5_def normalize_def dict_values_def Let_def add.assoc)

lemma map_fst_weights5:
  "map fst (weights5 a b c d e) = [''cost'', ''scalability'', ''complexity'', ''ecosystem'', ''performance'']"
  by (simp add: weights5_def)

lemma validate_weights5:
  "validate_weights (weights5 a b c d e) =
     (if (0 \<le> a \<and> a \<le> 1) \<and> (0 \<le> b \<and> b \<le> 1) \<and> (0 \<le> c \<and> c \<le> 1) \<and> (0 \<le> d \<and> d \<le> 1)
          \<and> (0 \<le> e \<and> e \<le> 1)
          \<and> 0.95 \<le> a + b + c + d + e \<and> a + b + c + d + e \<le> 1.05
          \<and> a \<le> 0.6 \<and> b \<le> 0.6 \<and> c \<le> 0.6 \<and> d \<le> 0.6 \<and> e \<le> 0.6
          \<and> 0.05 \<le> a \<and> 0.05 \<le> b \<and> 0.05 \<le> c \<and> 0.05 \<le> d \<and> 0.05 \<le> e
      then Inr () else Inl ValueError)"
proof -
  have mx: "Max (set [a, b, c, d, e]) > 0.6 \<longleftrightarrow> \<not> (a \<le> 0.6 \<and> b \<le> 0.6 \<and> c \<le> 0.6 \<and> d \<le> 0.6 \<and> e \<le> 0.6)"
    by (simp add: not_le) (auto simp: max_def)
  have mn: "Min (set [a, b, c, d, e]) < 0.05 \<longleftrightarrow> \<not> (0.05 \<le> a \<and> 0.05 \<le> b \<and> 0.05 \<le> c \<and> 0.05 \<le> d \<and> 0.05 \<le> e)"
    by (simp add: not_le) (auto simp: min_def)
  have dv: "dict_values (weights5 a b c d e) = [a, b, c, d, e]"
    by (simp add: weights5_def dict_values_def)
  have sm: "sum_list [a, b, c, d, e] = a + b + c + d + e" by simp
  have la: "list_all (\<lambda>(dimn, weight). 0 \<le> weight \<and> weight \<le> 1) (weights5 a b c d e)
      \<longleftrightarrow> (0 \<le> a \<and> a \<le> 1) \<and> (0 \<le> b \<and> b \<le> 1) \<and> (0 \<le> c \<and> c \<le> 1) \<and> (0 \<le> d \<and> d \<le> 1) \<and> (0 \<le> e \<and> e \<le> 1)"
    by (simp add: weights5_def)
  have ne: "weights5 a b c d e \<noteq> []" by (simp add: weights5_def)
  have sub: "set standard_dimensions \<subseteq> set (map fst (weights5 a b c d e))"
    by (simp add: map_fst_weights5 standard_dimensions_def)
  show ?thesis
    unfolding validate_weights_def Let_def dv mx mn sm la
    using ne sub by auto
qed

lemma initial_weights5:
  "map (\<lambda>(dimn, w). (dimn, max 0.05 w))
     (apply_boosts [(''cost'', bc), (''complexity'', bx), (''scalability'', bs),
                    (''performance'', bp), (''ecosystem'', be)]
        (map (\<lambda>d. (d, 0.2)) standard_dimensions))
   = weights5 (max 0.05 (0.2 + bc)) (max 0.05 (0.2 + bs)) (max 0.05 (0.2 + bx))
       (max 0.05 (0.2 + be)) (max 0.05 (0.2 + bp))"
  by (simp add: standard_dimensions_def weights5_def)

lemma dimension_boosts_form:
  "dimension_boosts r =
     [(''cost'', dict_item (dimension_boosts r) ''cost''),
      (''complexity'', dict_item (dimension_boosts r) ''complexity''),
      (''scalability'', dict_item (dimension_boosts r) ''scalability''),
      (''performance'', dict_item (dimension_boosts r) ''performance''),
      (''ecosystem'', dict_item (dimension_boosts r) ''ecosystem'')]"
  by (simp add: dimension_boosts_def Let_def)

lemma calculate_dimension_weights_eval:
  "calculate_dimension_weights r =
     (let bs = dimension_boosts r in
      force_all (top_dims_of bs) (scale_priority_override r (normalize (weights_of_boosts bs))))"
proof -
  have "map (\<lambda>(dimn, w). (dimn, max 0.05 w))
          (apply_boosts (dimension_boosts r) (map (\<lambda>d. (d, 0.2)) standard_dimensions))
        = weights_of_boosts (dimension_boosts r)"
    unfolding weights_of_boosts_def
    by (subst dimension_boosts_form) (rule initial_weights5)
  then show ?thesis
    unfolding calculate_dimension_weights_def Let_def top_dims_of_def force_all_def
    by (simp only:)
qed

lemma scale_priority_override_weights5:
  "scale_priority_override r (weights5 a b c d e) =
    (if scalability_needs r = LARGE
        \<and> (if budget r = Budget_LOW then 1 else 0) + (if timeline r = TIGHT then 1 else 0)
              + (if expertise_level r = BEGINNER then (1::nat) else 0) \<ge> 2
        \<and> min (rank_of ''scalability'' (sorted_reverse snd
                   [(''cost'', a), (''scalability'', b), (''complexity'', c), (''ecosystem'', d),
                    (''performance'', e)]))
               (rank_of ''performance'' (sorted_reverse snd
                   [(''cost'', a), (''scalability'', b), (''complexity'', c), (''ecosystem'', d),
                    (''performance'', e)])) > 2
     then scale_priority_override r
            [(''cost'', a), (''scalability'', b), (''complexity'', c), (''ecosystem'', d),
             (''performance'', e)]
     else weights5 a b c d e)"
  by (simp add: scale_priority_override_def Let_def weights5_def)

lemmas eval_simps = calculate_dimension_weights_eval dimension_boosts_def Let_def
   weights_of_boosts_def top_dims_of_def force_all_def sorted_reverse_def normalize_weights5 dict_item_weights5
   dict_set_weights5 map_fst_weights5 validate_weights5 force_above_baseline_def reduce_other_def
   scale_priority_override_weights5 detect_requirement_conflicts_def

lemma weights_ok_1_low:
  "weights_ok \<lparr>team_size = 1, budget = Budget_LOW, timeline = t, scalability_needs = s,
                expertise_level = e\<rparr>"
  unfolding weights_ok_def
  by (cases t; cases s; cases e; simp add: eval_simps cong: let_weak_cong split del: if_split)

lemma weights_ok_1_medium:
  "weights_ok \<lparr>team_size = 1, budget = Budget_MEDIUM, timeline = t, scalability_needs = s,
                expertise_level = e\<rparr>"
  unfolding weights_ok_def
  by (cases t; cases s; cases e; simp add: eval_simps cong: let_weak_cong split del: if_split)

lemma weights_ok_1_high:
  "weights_ok \<lparr>team_size = 1, budget = Budget_HIGH, timeline = t, scalability_needs = s,
                expertise_level = e\<rparr>"
  unfolding weights_ok_def
  by (cases t; cases s; cases e; simp add: eval_simps cong: let_weak_cong split del: if_split)

lemma weights_ok_2_low:
  "weights_ok \<lparr>team_size = 2, budget = Budget_LOW, timeline = t, scalability_needs = s,
                expertise_level = e\<rparr>"
  unfolding weights_ok_def
  by (cases t; cases s; cases e; simp add: eval_simps cong: let_weak_cong split del: if_split)

lemma weights_ok_2_medium:
  "weights_ok \<lparr>team_size = 2, budget = Budget_MEDIUM, timeline = t, scalability_needs = s,
                expertise_level = e\<rparr>"
  unfolding weights_ok_def
  by (cases t; cases s; cases e; simp add: eval_simps cong: let_weak_cong split del: if_split)

lemma weights_ok_2_high:
  "weights_ok \<lparr>team_size = 2, budget = Budget_HIGH, timeline = t, scalability_needs = s,
                expertise_level = e\<rparr>"
  unfolding weights_ok_def
  by (cases t; cases s; cases e; simp add: eval_simps cong: let_weak_cong split del: if_split)

lemma weights_ok_3_low:
  "weights_ok \<lparr>team_size = 3, budget = Budget_LOW, timeline = t, scalability_needs = s,
                expertise_level = e\<rparr>"
  unfolding weights_ok_def
  by (cases t; cases s; cases e; simp add: eval_simps cong: let_weak_cong split del: if_split)

lemma weights_ok_3_medium:
  "weights_ok \<lparr>team_size = 3, budget = Budget_MEDIUM, timeline = t, scalability_needs = s,
                expertise_level = e\<rparr>"
  unfolding weights_ok_def
  by (cases t; cases s; cases e; simp add: eval_simps cong: let_weak_cong split del: if_split)

lemma weights_ok_3_high:
  "weights_ok \<lparr>team_size = 3, budget = Budget_HIGH, timeline = t, scalability_needs = s,
                expertise_level = e\<rparr>"
  unfolding weights_ok_def
  by (cases t; cases s; cases e; simp add: eval_simps cong: let_weak_cong split del: if_split)

lemma weights_ok_small:
  assumes "1 \<le> team_size r" and "team_size r \<le> 3"
  shows "weights_ok r"
proof -
  obtain n b t s e where r: "r = \<lparr>team_size = n, budget = b, timeline = t, scalability_needs = s,
      expertise_level = e\<rparr>"
    by (cases r) auto
  from assms r consider "n = 1" | "n = 2" | "n = 3" by fastforce
  then show ?thesis
  proof cases
    case 1
    then show ?thesis unfolding r
      by (cases b) (simp_all only: weights_ok_1_low weights_ok_1_medium weights_ok_1_high)
  next
    case 2
    then show ?thesis unfolding r
      by (cases b) (simp_all only: weights_ok_2_low weights_ok_2_medium weights_ok_2_high)
  next
    case 3
    then show ?thesis unfolding r
      by (cases b) (simp_all only: weights_ok_3_low weights_ok_3_medium weights_ok_3_high)
  qed
qed

section \<open>Weights for valid and for conflicting requirements\<close>

lemma default_1000_weights:
  "calculate_dimension_weights (default_requirements 1000)
     = weights5 (25 / 1626) (13 / 813) (13 / 813) (254 / 271) (25 / 1626)"
  unfolding default_requirements_def
  by (simp add: eval_simps cong: let_weak_cong split del: if_split)

lemma default_1000_rejected:
  "validate_weights (calculate_dimension_weights (default_requirements 1000)) = Inl ValueError"
  by (simp add: default_1000_weights validate_weights5)

text \<open>
  Claim C1, as stated, fails at team size 1000 with the other fields at their defaults
  (MEDIUM, MODERATE, MEDIUM, INTERMEDIATE): the requirements are valid and free of conflicts,
  the ecosystem weight is 254/271, about 0.937, above 0.6, and
  process_requirements fails with RequirementsProcessingError.
\<close>

theorem C1_large_team_rejected_counterexample:
  "validate_requirements (default_requirements 1000) = Inr ()
   \<and> detect_requirement_conflicts (default_requirements 1000) = []
   \<and> dict_item (calculate_dimension_weights (default_requirements 1000)) ''ecosystem'' = 254 / 271
   \<and> process_requirements (default_requirements 1000) = Inl RequirementsProcessingError"
proof -
  have v: "validate_requirements (default_requirements 1000) = Inr ()"
    by (simp add: validate_requirements_def default_requirements_def)
  have d: "detect_requirement_conflicts (default_requirements 1000) = []"
    by (simp add: detect_requirement_conflicts_def default_requirements_def)
  have e: "dict_item (calculate_dimension_weights (default_requirements 1000)) ''ecosystem'' = 254 / 271"
    by (simp only: default_1000_weights dict_item_weights5)
  have p: "process_requirements (default_requirements 1000) = Inl RequirementsProcessingError"
    unfolding process_requirements_def
    by (simp add: process_requirements_cases[where detect = detect_requirement_conflicts, OF v d]
        default_1000_rejected)
  from v d e p show ?thesis by (intro conjI)
qed

text \<open>
  Claim C1, amended. For valid requirements that trigger no conflict, process_requirements
  either returns weights over exactly the five standard dimensions, in dict order, that sum
  to 1.0 within 0.05 with every weight between 0.05 and 0.6, or fails with
  RequirementsProcessingError: it returns no weights that break the invariant. For team
  sizes 1 to 3 it returns such weights.
\<close>

theorem C1_weights_valid_or_rejected:
  assumes "validate_requirements r = Inr ()" and "detect_requirement_conflicts r = []"
  shows "(process_requirements r = Inl RequirementsProcessingError
           \<or> (\<exists>wc. process_requirements r = Inr wc \<and> weights_invariant (dimension_weights wc)))
         \<and> (team_size r \<le> 3 \<longrightarrow>
               (\<exists>wc. process_requirements r = Inr wc \<and> weights_invariant (dimension_weights wc)))"
proof -
  let ?wc = "\<lparr>dimension_weights = calculate_dimension_weights r,
               priority_factors = identify_priority_factors r\<rparr>"
  note c = process_requirements_cases[where detect = detect_requirement_conflicts, OF assms]
  have ok: "validate_weights (calculate_dimension_weights r) = Inr () \<Longrightarrow>
        process_requirements r = Inr ?wc \<and> weights_invariant (dimension_weights ?wc)"
  proof -
    assume v: "validate_weights (calculate_dimension_weights r) = Inr ()"
    then have p: "process_requirements_with detect_requirement_conflicts r = Inr ?wc"
      using c by simp
    from process_requirements_sound[OF p] p
    show "process_requirements r = Inr ?wc \<and> weights_invariant (dimension_weights ?wc)"
      by (simp add: process_requirements_def)
  qed
  have A: "process_requirements r = Inl RequirementsProcessingError
           \<or> (\<exists>wc. process_requirements r = Inr wc \<and> weights_invariant (dimension_weights wc))"
  proof (cases "validate_weights (calculate_dimension_weights r) = Inr ()")
    case True
    from ok[OF True] show ?thesis by blast
  next
    case False
    then show ?thesis using c by (simp add: process_requirements_def)
  qed
  have B: "team_size r \<le> 3 \<longrightarrow>
               (\<exists>wc. process_requirements r = Inr wc \<and> weights_invariant (dimension_weights wc))"
  proof
    assume s: "team_size r \<le> 3"
    from assms(1) have "1 \<le> team_size r"
      by (simp add: validate_requirements_def split: if_splits)
    from weights_ok_small[OF this s] assms(2)
    have "validate_weights (calculate_dimension_weights r) = Inr ()"
      by (simp add: weights_ok_def)
    from ok[OF this]
    show "\<exists>wc. process_requirements r = Inr wc \<and> weights_invariant (dimension_weights wc)"
      by blast
  qed
  from A B show ?thesis by (rule conjI)
qed

text \<open>Claim C1, amended, at the default requirements with team size 3.\<close>

theorem C1_weights_valid_or_rejected_witness:
  "validate_requirements (default_requirements 3) = Inr ()
   \<and> detect_requirement_conflicts (default_requirements 3) = []
   \<and> team_size (default_requirements 3) \<le> 3
   \<and> (\<exists>wc. process_requirements (default_requirements 3) = Inr wc
             \<and> weights_invariant (dimension_weights wc))"
proof -
  have v: "validate_requirements (default_requirements 3) = Inr ()"
    by (simp add: validate_requirements_def default_requirements_def)
  have d: "detect_requirement_conflicts (default_requirements 3) = []"
    by (simp add: detect_requirement_conflicts_def default_requirements_def)
  have t: "team_size (default_requirements 3) \<le> 3"
    by (simp add: default_requirements_def)
  from C1_weights_valid_or_rejected[OF v d]
  have "team_size (default_requirements 3) \<le> 3 \<longrightarrow>
          (\<exists>wc. process_requirements (default_requirements 3) = Inr wc
             \<and> weights_invariant (dimension_weights wc))"
    by (rule conjunct2)
  from this t have e: "\<exists>wc. process_requirements (default_requirements 3) = Inr wc
             \<and> weights_invariant (dimension_weights wc)"
    by (rule mp)
  from v d t e show ?thesis by (intro conjI)
qed

lemma conflicting_weights:
  "calculate_dimension_weights conflicting_requirements
     = weights5 (70 / 349) (76 / 349) (70 / 349) (57 / 349) (76 / 349)"
  unfolding conflicting_requirements_def
  by (simp add: eval_simps cong: let_weak_cong split del: if_split)

lemma conflicting_weights_valid:
  "validate_weights (calculate_dimension_weights conflicting_requirements) = Inr ()"
  by (simp add: conflicting_weights validate_weights5)

text \<open>
  Claim C2. For budget LOW, timeline TIGHT, scalability LARGE, team size 3 and expertise
  INTERMEDIATE the conflict "Low budget, large scalability needs, and tight timeline create
  competing priorities" is detected and process_requirements raises it as
  ConflictingRequirementsError; the application reports it and processes the requirements
  again with conflict detection bypassed, and that run returns the weights 70/349, 76/349,
  70/349, 57/349 and 76/349, which satisfy the output invariant.
\<close>

theorem C2_conflict_surfaced_and_weights_valid:
  "detect_requirement_conflicts conflicting_requirements
     = [''Low budget, large scalability needs, and tight timeline create competing priorities'']
   \<and> process_requirements conflicting_requirements
     = Inl (ConflictingRequirementsError
         [''Low budget, large scalability needs, and tight timeline create competing priorities''])
   \<and> run_requirements_stage conflicting_requirements
     = ([''Low budget, large scalability needs, and tight timeline create competing priorities''],
        Inr \<lparr>dimension_weights = weights5 (70 / 349) (76 / 349) (70 / 349) (57 / 349) (76 / 349),
             priority_factors = identify_priority_factors conflicting_requirements\<rparr>)
   \<and> weights_invariant (weights5 (70 / 349) (76 / 349) (70 / 349) (57 / 349) (76 / 349))"
proof -
  let ?c = "[''Low budget, large scalability needs, and tight timeline create competing priorities'']"
  let ?wc = "\<lparr>dimension_weights = weights5 (70 / 349) (76 / 349) (70 / 349) (57 / 349) (76 / 349),
             priority_factors = identify_priority_factors conflicting_requirements\<rparr>"
  have d: "detect_requirement_conflicts conflicting_requirements = ?c"
    by (simp add: detect_requirement_conflicts_def conflicting_requirements_def)
  have v: "validate_requirements conflicting_requirements = Inr ()"
    by (simp add: validate_requirements_def conflicting_requirements_def)
  have p: "process_requirements conflicting_requirements = Inl (ConflictingRequirementsError ?c)"
    unfolding process_requirements_def process_requirements_with_def
    by (simp only: v d sum.case Let_def) simp
  have "process_requirements_with (\<lambda>req. []) conflicting_requirements =
          Inr \<lparr>dimension_weights = calculate_dimension_weights conflicting_requirements,
               priority_factors = identify_priority_factors conflicting_requirements\<rparr>"
    using process_requirements_cases[where detect = "\<lambda>req. []", OF v]
    by (simp only: conflicting_weights_valid if_True simp_thms)
  then have b: "process_requirements_with (\<lambda>req. []) conflicting_requirements = Inr ?wc"
    by (simp only: conflicting_weights)
  have r: "run_requirements_stage conflicting_requirements = (?c, Inr ?wc)"
    unfolding run_requirements_stage_def by (simp only: p b sum.case error.case)
  from process_requirements_sound[OF b]
  have i: "weights_invariant (weights5 (70 / 349) (76 / 349) (70 / 349) (57 / 349) (76 / 349))"
    by simp
  from d p r i show ?thesis by (intro conjI)
qed

end
